theory Spec2Isabelle
  imports Complex_Main "HOL-Library.Multiset"
begin

section \<open>Pachislot simulator: a shallow embedding of \<^verbatim>\<open>src/pachislo.ts\<close>\<close>

text \<open>
  Conventions of the embedding.
  \<^item> Ball counts, streak lengths, reel lengths and reel symbols are JavaScript numbers that
    the program only ever adds to, subtracts one from and compares; they are modelled as
    \<^typ>\<open>int\<close> (integer-valued parameters). Probabilities are finite doubles, modelled
    as \<^typ>\<open>real\<close>; comparisons of doubles are exact, and the one arithmetic operation
    on probabilities, the product in \<^verbatim>\<open>lotteryRushContinue\<close>, is rounded to binary64 as
    the code computes it.
  \<^item> A \<^verbatim>\<open>throw\<close> is a value \<open>Inl e\<close> of a sum type. Where the object has already been
    mutated when the exception leaves a method, the error carries the mutated object.
  \<^item> \<^verbatim>\<open>Math.random()\<close> is an explicit source \<open>rnd :: nat \<Rightarrow> real\<close>: \<open>rnd k\<close> is the value
    returned by the \<open>k\<close>-th call. Functions that draw take the index of the next draw and
    return the index after their last draw.
  \<^item> \<^verbatim>\<open>console.log\<close>, \<^verbatim>\<open>console.warn\<close> and \<^verbatim>\<open>console.trace\<close> are not modelled.
\<close>

subsection \<open>Errors\<close>

datatype error =
    ConfigError "string list"
  | UninitializedError
  | AlreadyStartedError
  | ProbabilityError
  | RangeError
  | Error string

subsection \<open>Config module\<close>

record ballsConfig =
  initBalls :: int
  incrementalBalls :: int
  incrementalRush :: int

record slotProbability =
  win :: real
  fakeWin :: real
  fakeLose :: real

record probability =
  normal :: slotProbability
  rush :: slotProbability
  rushContinue :: slotProbability
  rushContinueFn :: "int \<Rightarrow> real"

record config =
  balls :: ballsConfig
  probability :: probability

text \<open>The tail of every \<^verbatim>\<open>validate\<close>: throw when the collected list is not empty.\<close>

definition throwIfErrors :: "string list \<Rightarrow> error + unit" where
  "throwIfErrors errors = (if length errors > 0 then Inl (ConfigError errors) else Inr ())"

definition BallsConfig_validate :: "ballsConfig \<Rightarrow> error + unit" where
  "BallsConfig_validate c =
     throwIfErrors
       (if initBalls c < 1 then [''initial balls must be greater than 0''] else [])"

definition SlotProbability_validate :: "slotProbability \<Rightarrow> error + unit" where
  "SlotProbability_validate p =
     throwIfErrors
       ((if win p < 0 \<or> win p > 1
         then [''win probability must be between 0.0 and 1.0''] else []) @
        (if fakeWin p < 0 \<or> fakeWin p > 1
         then [''fake_win probability must be between 0.0 and 1.0''] else []) @
        (if fakeLose p < 0 \<or> fakeLose p > 1
         then [''fake_lose probability must be between 0.0 and 1.0''] else []))"

text \<open>
  \<^verbatim>\<open>try { x.validate() } catch (e) { if (e instanceof ConfigError) errors.push(...e.errors) }\<close>:
  the messages of a \<open>ConfigError\<close> are collected, anything else is swallowed.
\<close>

fun caughtErrors :: "error + unit \<Rightarrow> string list" where
  "caughtErrors (Inl (ConfigError es)) = es"
| "caughtErrors _ = []"

definition Probability_validate :: "probability \<Rightarrow> error + unit" where
  "Probability_validate p =
     throwIfErrors
       (caughtErrors (SlotProbability_validate (normal p)) @
        caughtErrors (SlotProbability_validate (rush p)) @
        caughtErrors (SlotProbability_validate (rushContinue p)))"

definition Config_validate :: "config \<Rightarrow> error + unit" where
  "Config_validate c =
     throwIfErrors
       (caughtErrors (BallsConfig_validate (balls c)) @
        caughtErrors (Probability_validate (probability c)))"

subsection \<open>Game state module\<close>

datatype gameState =
    Uninitialized
  | Normal int
  | Rush int int int

fun GameState_launchBall :: "gameState \<Rightarrow> error + gameState" where
  "GameState_launchBall Uninitialized = Inl UninitializedError"
| "GameState_launchBall (Normal b) =
     (let newBalls = b - 1
      in if newBalls = 0 then Inr Uninitialized else Inr (Normal newBalls))"
| "GameState_launchBall (Rush b rb n) =
     (let newRushBalls = rb - 1
      in if newRushBalls = 0 then Inr (Normal b) else Inr (Rush b newRushBalls n))"

fun GameState_init :: "gameState \<Rightarrow> ballsConfig \<Rightarrow> error + gameState" where
  "GameState_init Uninitialized c = Inr (Normal (initBalls c))"
| "GameState_init _ c = Inl AlreadyStartedError"

fun GameState_incrementBalls :: "gameState \<Rightarrow> ballsConfig \<Rightarrow> error + gameState" where
  "GameState_incrementBalls Uninitialized c =
     Inl (Error ''Cannot increment balls in uninitialized state'')"
| "GameState_incrementBalls (Normal b) c = Inr (Normal (b + incrementalBalls c))"
| "GameState_incrementBalls (Rush b rb n) c = Inr (Rush (b + incrementalBalls c) rb n)"

fun GameState_triggerRush :: "gameState \<Rightarrow> ballsConfig \<Rightarrow> error + gameState" where
  "GameState_triggerRush Uninitialized c =
     Inl (Error ''Cannot trigger rush in uninitialized state'')"
| "GameState_triggerRush (Normal b) c =
     Inr (Rush (b + incrementalBalls c) (incrementalRush c) 1)"
| "GameState_triggerRush (Rush b rb n) c =
     Inr (Rush (b + incrementalBalls c) (rb + incrementalRush c) (n + 1))"

record transition =
  before :: "gameState option"
  after :: gameState

subsection \<open>Lottery module\<close>

text \<open>The enums \<^verbatim>\<open>Win { Default, FakeWin }\<close> and \<^verbatim>\<open>Lose { Default, FakeLose }\<close>.\<close>

datatype win = WinDefault | FakeWin

datatype lose = LoseDefault | FakeLose

datatype lotteryResult = Win win | Lose lose

fun LotteryResult_isWin :: "lotteryResult \<Rightarrow> bool" where
  "LotteryResult_isWin (Win w) = True"
| "LotteryResult_isWin (Lose l) = False"

type_synonym random = "nat \<Rightarrow> real"

text \<open>The contract of \<^verbatim>\<open>Math.random()\<close>: every value lies in \<open>[0, 1)\<close>.\<close>

definition randomInRange :: "random \<Rightarrow> bool" where
  "randomInRange rnd \<longleftrightarrow> (\<forall>k. 0 \<le> rnd k \<and> rnd k < 1)"

text \<open>\<^verbatim>\<open>Lottery.lottery\<close>: two draws, the second one on either branch.\<close>

definition Lottery_lottery :: "slotProbability \<Rightarrow> random \<Rightarrow> nat \<Rightarrow> lotteryResult \<times> nat" where
  "Lottery_lottery slotProbability rnd k =
     (if rnd k < win slotProbability
      then (if rnd (k + 1) < fakeWin slotProbability then Win FakeWin else Win WinDefault)
      else (if rnd (k + 1) < fakeLose slotProbability then Lose FakeLose else Lose LoseDefault),
      k + 2)"

definition Lottery_lotteryNormal :: "probability \<Rightarrow> random \<Rightarrow> nat \<Rightarrow> lotteryResult \<times> nat" where
  "Lottery_lotteryNormal p rnd k = Lottery_lottery (normal p) rnd k"

definition Lottery_lotteryRush :: "probability \<Rightarrow> random \<Rightarrow> nat \<Rightarrow> lotteryResult \<times> nat" where
  "Lottery_lotteryRush p rnd k = Lottery_lottery (rush p) rnd k"

text \<open>
  The product of two finite doubles, as \<^verbatim>\<open>*\<close> computes it: the exact product rounded to
  the nearest binary64 value, ties to the even significand. A result is a finite number or,
  on overflow, an infinity (\<^verbatim>\<open>NaN\<close> does not arise from finite operands).
\<close>

datatype jsNumber = Finite real | PosInfinity | NegInfinity

text \<open>Rounding to the nearest integer, ties to even.\<close>

definition roundHalfEven :: "real \<Rightarrow> int" where
  "roundHalfEven q =
     (let f = \<lfloor>q\<rfloor>; d = q - real_of_int f
      in if d < 1 / 2 then f
         else if d > 1 / 2 then f + 1
         else if even f then f else f + 1)"

text \<open>
  The binary exponent \<open>e\<close> of a magnitude \<open>a\<close>, \<open>2\<^sup>e \<le> a < 2\<^sup>e\<^sup>+\<^sup>1\<close>, found by halving or
  doubling. It is kept within \<open>-1022\<close> (the exponent of the subnormal numbers) and
  \<open>1024\<close> (where every magnitude overflows).
\<close>

fun binadeUp :: "nat \<Rightarrow> real \<Rightarrow> int \<Rightarrow> int" where
  "binadeUp 0 a e = e"
| "binadeUp (Suc fuel) a e = (if a < 2 then e else binadeUp fuel (a / 2) (e + 1))"

fun binadeDown :: "nat \<Rightarrow> real \<Rightarrow> int \<Rightarrow> int" where
  "binadeDown 0 a e = e"
| "binadeDown (Suc fuel) a e = (if 1 \<le> a then e else binadeDown fuel (a * 2) (e - 1))"

definition exponentOf :: "real \<Rightarrow> int" where
  "exponentOf a = (if 1 \<le> a then binadeUp 1024 a 0 else binadeDown 1022 a 0)"

text \<open>
  Rounding a real to binary64: the significand has 53 bits, so the spacing of the doubles
  around \<open>x\<close> is \<open>2\<^sup>e\<^sup>-\<^sup>5\<^sup>2\<close>; a rounded magnitude of \<open>2\<^sup>1\<^sup>0\<^sup>2\<^sup>4\<close> or more is an infinity.
\<close>

definition roundToDouble :: "real \<Rightarrow> jsNumber" where
  "roundToDouble x =
     (let a = \<bar>x\<bar>;
          ulp = power_int 2 (exponentOf a - 52);
          v = real_of_int (roundHalfEven (a / ulp)) * ulp
      in if v \<ge> 2 ^ 1024 then (if x > 0 then PosInfinity else NegInfinity)
         else Finite (sgn x * v))"

definition jsMultiply :: "real \<Rightarrow> real \<Rightarrow> jsNumber" where
  "jsMultiply x y = roundToDouble (x * y)"

text \<open>The comparison \<^verbatim>\<open>x > y\<close> of a product with a finite double.\<close>

fun jsGreater :: "jsNumber \<Rightarrow> real \<Rightarrow> bool" where
  "jsGreater (Finite x) y = (x > y)"
| "jsGreater PosInfinity y = True"
| "jsGreater NegInfinity y = False"

text \<open>
  \<^verbatim>\<open>lotteryRushContinue\<close>. When the product is \<open>-Infinity\<close> the adjusted \<open>win\<close> is below
  every value of \<^verbatim>\<open>Math.random\<close>, so \<^verbatim>\<open>lottery\<close> takes its losing branch; the branch for
  \<open>+Infinity\<close> is never reached, since \<open>Infinity > 1.0\<close>.
\<close>

definition Lottery_lotteryRushContinue ::
  "probability \<Rightarrow> int \<Rightarrow> random \<Rightarrow> nat \<Rightarrow> (error + lotteryResult) \<times> nat" where
  "Lottery_lotteryRushContinue p n rnd k =
     (let probabilityValues = rushContinue p;
          adjustedWin = jsMultiply (win probabilityValues) (rushContinueFn p n)
      in if jsGreater adjustedWin 1 then (Inl ProbabilityError, k)
         else
           (case adjustedWin of
              Finite w \<Rightarrow>
                (let adjustedProbability =
                       \<lparr> win = w,
                         fakeWin = fakeWin probabilityValues,
                         fakeLose = fakeLose probabilityValues \<rparr>;
                     (r, k') = Lottery_lottery adjustedProbability rnd k
                 in (Inr r, k'))
            | NegInfinity \<Rightarrow>
                (Inr (if rnd (k + 1) < fakeLose probabilityValues
                      then Lose FakeLose else Lose LoseDefault),
                 k + 2)
            | PosInfinity \<Rightarrow> (Inl ProbabilityError, k)))"

subsection \<open>Slot module\<close>

text \<open>
  A JavaScript array is a list whose elements may be \<^verbatim>\<open>undefined\<close> (\<open>None\<close>): reading
  outside the array gives \<^verbatim>\<open>undefined\<close>, writing past the end extends the array with
  holes, and writing at a negative index sets a property that is not an element (the
  model leaves the array as it is). Under the contract of \<^verbatim>\<open>Math.random\<close> every index
  the program computes is inside the array.
\<close>

type_synonym 'a jsArray = "'a option list"

definition jsGet :: "'a jsArray \<Rightarrow> int \<Rightarrow> 'a option" where
  "jsGet a i = (if 0 \<le> i \<and> i < int (length a) then a ! nat i else None)"

definition jsSet :: "'a jsArray \<Rightarrow> int \<Rightarrow> 'a option \<Rightarrow> 'a jsArray" where
  "jsSet a i v =
     (if i < 0 then a
      else if i < int (length a) then a[nat i := v]
      else a @ replicate (nat i - length a) None @ [v])"

text \<open>\<^verbatim>\<open>Array.prototype.slice(start, end)\<close>: a negative index counts from the end.\<close>

definition sliceIndex :: "nat \<Rightarrow> int \<Rightarrow> nat" where
  "sliceIndex len i = (if i < 0 then nat (max (int len + i) 0) else min (nat i) len)"

definition jsSlice :: "'a jsArray \<Rightarrow> int \<Rightarrow> int \<Rightarrow> 'a jsArray" where
  "jsSlice a startIdx endIdx =
     (let lo = sliceIndex (length a) startIdx; hi = sliceIndex (length a) endIdx
      in take (hi - lo) (drop lo a))"

text \<open>
  The remainder operator \<^verbatim>\<open>%\<close> on integers: the sign follows the dividend, and a zero
  divisor gives \<^verbatim>\<open>NaN\<close> (\<open>None\<close>).
\<close>

definition jsRem :: "int \<Rightarrow> int \<Rightarrow> int option" where
  "jsRem a b = (if b = 0 then None else Some (sgn a * (\<bar>a\<bar> mod \<bar>b\<bar>)))"

text \<open>
  \<^verbatim>\<open>shuffleArray\<close>: \<^verbatim>\<open>for (let i = array.length - 1; i > 0; i--)\<close> swaps \<open>array[i]\<close> with
  \<open>array[j]\<close>, \<open>j = floor(random() * (i + 1))\<close>. The destructuring assignment reads both
  elements first, then writes \<open>array[i]\<close>, then \<open>array[j]\<close>.
\<close>

fun shuffleLoop :: "nat \<Rightarrow> 'a jsArray \<Rightarrow> random \<Rightarrow> nat \<Rightarrow> 'a jsArray \<times> nat" where
  "shuffleLoop 0 array rnd k = (array, k)"
| "shuffleLoop (Suc i') array rnd k =
     (let i = int (Suc i');
          j = \<lfloor>rnd k * real_of_int (i + 1)\<rfloor>;
          ai = jsGet array i;
          aj = jsGet array j
      in shuffleLoop i' (jsSet (jsSet array i aj) j ai) rnd (k + 1))"

definition shuffleArray :: "'a jsArray \<Rightarrow> random \<Rightarrow> nat \<Rightarrow> 'a jsArray \<times> nat" where
  "shuffleArray array rnd k = shuffleLoop (length array - 1) array rnd k"

type_synonym slotSymbol = int
type_synonym slotResult = "slotSymbol jsArray"
type_synonym slotOutput = "slotResult \<times> slotResult option"

record slotProducer =
  length_sp :: int
  choices :: "slotSymbol list"

definition SlotProducer_new :: "int \<Rightarrow> slotSymbol list \<Rightarrow> error + slotProducer" where
  "SlotProducer_new len cs =
     (if length cs < 2 then Inl (Error ''Choices must have at least two elements'')
      else Inr \<lparr> length_sp = len, choices = cs \<rparr>)"

text \<open>
  \<^verbatim>\<open>produceWin\<close>: \<^verbatim>\<open>Array(length).fill(choice)\<close> throws a \<open>RangeError\<close> for a negative
  length.
\<close>

definition SlotProducer_produceWin ::
  "slotProducer \<Rightarrow> random \<Rightarrow> nat \<Rightarrow> (error + slotResult) \<times> nat" where
  "SlotProducer_produceWin sp rnd k =
     (let choice = jsGet (map Some (choices sp)) \<lfloor>rnd k * real (length (choices sp))\<rfloor>
      in (if length_sp sp < 0 then Inl RangeError
          else Inr (replicate (nat (length_sp sp)) choice),
          k + 1))"

text \<open>
  \<^verbatim>\<open>for (let i = 0; i < cnt; i++) result.push(choices[floor(random() * choices.length)])\<close>,
  by the number of iterations.
\<close>

fun sampleLoop :: "nat \<Rightarrow> 'a jsArray \<Rightarrow> random \<Rightarrow> nat \<Rightarrow> 'a jsArray \<times> nat" where
  "sampleLoop 0 cs rnd k = ([], k)"
| "sampleLoop (Suc m) cs rnd k =
     (let x = jsGet cs \<lfloor>rnd k * real (length cs)\<rfloor>;
          (rest, k') = sampleLoop m cs rnd (k + 1)
      in (x # rest, k'))"

definition SlotProducer_produceLose :: "slotProducer \<Rightarrow> random \<Rightarrow> nat \<Rightarrow> slotResult \<times> nat" where
  "SlotProducer_produceLose sp rnd k =
     (let (refChoices, k1) = shuffleArray (map Some (choices sp)) rnd k;
          partition = \<lfloor>rnd k1 * real_of_int (int (length refChoices) - 1)\<rfloor> + 1;
          choices1 = jsSlice refChoices 0 partition;
          choices2 = jsSlice refChoices partition (int (length refChoices));
          cnt1 = \<lfloor>rnd (k1 + 1) * real_of_int (length_sp sp - 1)\<rfloor> + 1;
          cnt2 = length_sp sp - cnt1;
          (result1, k2) = sampleLoop (nat cnt1) choices1 rnd (k1 + 2);
          (result2, k3) = sampleLoop (nat cnt2) choices2 rnd k2
      in shuffleArray (result1 @ result2) rnd k3)"

definition SlotProducer_produceFakeLose ::
  "slotProducer \<Rightarrow> random \<Rightarrow> nat \<Rightarrow> slotResult \<times> nat" where
  "SlotProducer_produceFakeLose sp rnd k =
     (let cs = map Some (choices sp);
          choiceIndex = \<lfloor>rnd k * real (length cs)\<rfloor>;
          shifted =
            jsRem (choiceIndex + (if rnd (k + 1) < 1 / 2 then - 1 else 1) + int (length cs))
              (int (length cs));
          result =
            [jsGet cs choiceIndex,
             (case shifted of None \<Rightarrow> None | Some s \<Rightarrow> jsGet cs s),
             jsGet cs choiceIndex]
      in (result, k + 2))"

fun SlotProducer_produce ::
  "slotProducer \<Rightarrow> lotteryResult \<Rightarrow> random \<Rightarrow> nat \<Rightarrow> (error + slotOutput) \<times> nat" where
  "SlotProducer_produce sp (Win WinDefault) rnd k =
     (let (w, k1) = SlotProducer_produceWin sp rnd k
      in (case w of Inl e \<Rightarrow> Inl e | Inr r \<Rightarrow> Inr (r, None), k1))"
| "SlotProducer_produce sp (Win FakeWin) rnd k =
     (let (f, k1) = SlotProducer_produceFakeLose sp rnd k;
          (w, k2) = SlotProducer_produceWin sp rnd k1
      in (case w of Inl e \<Rightarrow> Inl e | Inr r \<Rightarrow> Inr (f, Some r), k2))"
| "SlotProducer_produce sp (Lose LoseDefault) rnd k =
     (let (r, k1) = SlotProducer_produceLose sp rnd k in (Inr (r, None), k1))"
| "SlotProducer_produce sp (Lose FakeLose) rnd k =
     (let (r, k1) = SlotProducer_produceFakeLose sp rnd k in (Inr (r, None), k1))"

subsection \<open>Command module\<close>

text \<open>The classes implementing \<^verbatim>\<open>GameCommand\<close>; \<open>LaunchBallFlow\<close> carries \<open>isLottery\<close>.\<close>

datatype gameCommand =
    LaunchBall
  | CauseLottery
  | StartGame
  | FinishGameCommandImpl
  | LaunchBallFlow bool

text \<open>
  \<^verbatim>\<open>CommandType = ControlCommand | FinishGameCommand | string\<close>; the value \<^verbatim>\<open>null\<close> of
  \<^verbatim>\<open>CommandType | null\<close> is \<open>None\<close>.
\<close>

datatype commandType =
    Control gameCommand
  | FinishGameObject
  | StringCommand string

subsection \<open>Interface module\<close>

text \<open>
  The output collaborator is modelled by the sequence of notifications it has received, in
  order; it is assumed not to throw. The input collaborator is the sequence of values its
  \<^verbatim>\<open>waitForInput\<close> returns.
\<close>

datatype notification =
    NotifyDefault transition
  | NotifyFinishGame gameState
  | NotifyStartGame gameState
  | NotifyLotteryNormal lotteryResult slotOutput
  | NotifyLotteryRush lotteryResult slotOutput
  | NotifyLotteryRushContinue lotteryResult slotOutput

subsection \<open>Game module\<close>

datatype stepResult = Continue | Break

text \<open>
  The fields of \<^verbatim>\<open>Game\<close>. \<open>inputSeq\<close> and \<open>outputLog\<close> stand for the fields
  \<^verbatim>\<open>input\<close> and \<^verbatim>\<open>output\<close>: \<open>inputSeq g i\<close> is what the \<open>i\<close>-th call of
  \<^verbatim>\<open>input.waitForInput\<close> returns, \<open>outputLog\<close> holds what the output collaborator has
  received. \<open>polled\<close> counts the calls of \<^verbatim>\<open>input.waitForInput\<close> and \<open>draws\<close> the calls of
  \<^verbatim>\<open>Math.random\<close> made so far. The field \<^verbatim>\<open>slotProducer\<close> is the constant below.
\<close>

record game =
  beforeState :: "gameState option"
  state :: gameState
  lottery :: probability
  config :: ballsConfig
  isSlotSpinning :: bool
  inputSeq :: "nat \<Rightarrow> commandType option"
  polled :: nat
  outputLog :: "notification list"
  draws :: nat

definition Game_slotProducer :: slotProducer where
  "Game_slotProducer = \<lparr> length_sp = 3, choices = [1, 2, 3, 4, 5, 6, 7, 8, 9] \<rparr>"

text \<open>A method either returns (\<open>Inr\<close>) or throws (\<open>Inl\<close>), leaving the game as it then is.\<close>

type_synonym 'a thrown = "(error \<times> game) + 'a"

definition notify :: "notification \<Rightarrow> game \<Rightarrow> game" where
  "notify e g = g \<lparr> outputLog := outputLog g @ [e] \<rparr>"

definition Game_new :: "config \<Rightarrow> (nat \<Rightarrow> commandType option) \<Rightarrow> error + game" where
  "Game_new c inp =
     (case Config_validate c of
        Inl e \<Rightarrow> Inl e
      | Inr _ \<Rightarrow>
          Inr \<lparr> beforeState = None, state = Uninitialized, lottery = probability c,
                config = balls c, isSlotSpinning = False, inputSeq = inp, polled = 0,
                outputLog = [], draws = 0 \<rparr>)"

definition Game_start :: "game \<Rightarrow> game thrown" where
  "Game_start g =
     (case GameState_init (state g) (config g) of
        Inl e \<Rightarrow> Inl (e, g)
      | Inr s \<Rightarrow> Inr (notify (NotifyStartGame s) (g \<lparr> state := s \<rparr>)))"

definition Game_finish :: "game \<Rightarrow> game thrown" where
  "Game_finish g =
     (if state g = Uninitialized then Inl (UninitializedError, g)
      else Inr ((notify (NotifyFinishGame (state g)) g) \<lparr> state := Uninitialized \<rparr>))"

definition Game_launchBall :: "game \<Rightarrow> game thrown" where
  "Game_launchBall g =
     (if isSlotSpinning g then Inl (Error ''Cannot launch ball while slot is spinning'', g)
      else
        (case GameState_launchBall (state g) of
           Inl e \<Rightarrow> Inl (e, g)
         | Inr s \<Rightarrow> Inr (g \<lparr> state := s \<rparr>)))"

definition Game_setSlotSpinning :: "game \<Rightarrow> bool \<Rightarrow> game" where
  "Game_setSlotSpinning g spinning = g \<lparr> isSlotSpinning := spinning \<rparr>"

fun GameState_isRush :: "gameState \<Rightarrow> bool" where
  "GameState_isRush (Rush b rb n) = True"
| "GameState_isRush _ = False"

text \<open>
  The body of the \<^verbatim>\<open>try\<close> block of \<^verbatim>\<open>causeLottery\<close>, entered in a Rush state with
  streak \<open>n\<close>.
\<close>

definition Game_causeLottery_try :: "random \<Rightarrow> game \<Rightarrow> int \<Rightarrow> game thrown" where
  "Game_causeLottery_try rnd g n =
     (let (c, k1) = Lottery_lotteryRushContinue (lottery g) n rnd (draws g)
      in case c of
           Inl e \<Rightarrow> Inl (e, g \<lparr> draws := k1 \<rparr>)
         | Inr continueResult \<Rightarrow>
             (let (p, k2) = SlotProducer_produce Game_slotProducer continueResult rnd k1
              in case p of
                   Inl e \<Rightarrow> Inl (e, g \<lparr> draws := k2 \<rparr>)
                 | Inr slotResult \<Rightarrow>
                     (let g1 = notify (NotifyLotteryRushContinue continueResult slotResult)
                                 (g \<lparr> draws := k2 \<rparr>)
                      in case (if LotteryResult_isWin continueResult
                               then GameState_triggerRush (state g1) (config g1)
                               else GameState_incrementBalls (state g1) (config g1)) of
                           Inl e \<Rightarrow> Inl (e, g1)
                         | Inr s \<Rightarrow> Inr (g1 \<lparr> state := s \<rparr>))))"

text \<open>\<^verbatim>\<open>catch (error) { ... console.warn ... }\<close>: whatever was thrown is swallowed.\<close>

definition Game_causeLottery_catch :: "game thrown \<Rightarrow> game" where
  "Game_causeLottery_catch t = (case t of Inl (e, g) \<Rightarrow> g | Inr g \<Rightarrow> g)"

definition Game_causeLottery :: "random \<Rightarrow> game \<Rightarrow> game thrown" where
  "Game_causeLottery rnd g =
     (let g0 = Game_setSlotSpinning g True;
          (result, k1) =
            (if GameState_isRush (state g0) then Lottery_lotteryRush (lottery g0) rnd (draws g0)
             else Lottery_lotteryNormal (lottery g0) rnd (draws g0));
          (p, k2) = SlotProducer_produce Game_slotProducer result rnd k1;
          g1 = g0 \<lparr> draws := k2 \<rparr>
      in case p of
           Inl e \<Rightarrow> Inl (e, g1)
         | Inr slotResult \<Rightarrow>
             (let g2 = notify (if GameState_isRush (state g1)
                               then NotifyLotteryRush result slotResult
                               else NotifyLotteryNormal result slotResult) g1
              in if \<not> LotteryResult_isWin result then Inr g2
                 else
                   (case state g2 of
                      Rush b rb n \<Rightarrow> Inr (Game_causeLottery_catch (Game_causeLottery_try rnd g2 n))
                    | _ \<Rightarrow>
                        (case GameState_triggerRush (state g2) (config g2) of
                           Inl e \<Rightarrow> Inl (e, g2)
                         | Inr s \<Rightarrow> Inr (g2 \<lparr> state := s \<rparr>)))))"

fun GameCommand_execute :: "random \<Rightarrow> gameCommand \<Rightarrow> game \<Rightarrow> game thrown" where
  "GameCommand_execute rnd LaunchBall g = Game_launchBall g"
| "GameCommand_execute rnd CauseLottery g = Game_causeLottery rnd g"
| "GameCommand_execute rnd StartGame g = Game_start g"
| "GameCommand_execute rnd FinishGameCommandImpl g = Game_finish g"
| "GameCommand_execute rnd (LaunchBallFlow isLottery) g =
     (case Game_launchBall g of
        Inl t \<Rightarrow> Inl t
      | Inr g1 \<Rightarrow> if isLottery then Game_causeLottery rnd g1 else Inr g1)"

text \<open>
  The normalisation of a command that is neither the finish sentinel nor falsy: a
  \<open>Control\<close> object yields its command, a string is looked up.
\<close>

fun controlCommandOf :: "commandType \<Rightarrow> error + gameCommand" where
  "controlCommandOf (Control c) = Inr c"
| "controlCommandOf (StringCommand s) =
     (if s = ''LaunchBall'' then Inr LaunchBall
      else if s = ''CauseLottery'' then Inr CauseLottery
      else if s = ''StartGame'' then Inr StartGame
      else if s = ''FinishGame'' then Inr FinishGameCommandImpl
      else Inl (Error (''Unknown command: '' @ s)))"
| "controlCommandOf FinishGameObject = Inr FinishGameCommandImpl"

text \<open>
  \<^verbatim>\<open>runStepWithCommand\<close>. The finish sentinel (the string \<^verbatim>\<open>"FinishGame"\<close> or an object
  of type \<^verbatim>\<open>"FinishGame"\<close>) breaks; \<^verbatim>\<open>null\<close> and the empty string are falsy and continue.
  The last equation of \<open>controlCommandOf\<close> is never reached from here.
\<close>

definition Game_runStepWithCommand ::
  "random \<Rightarrow> game \<Rightarrow> commandType option \<Rightarrow> (stepResult \<times> game) thrown" where
  "Game_runStepWithCommand rnd g command =
     (let g0 = g \<lparr> beforeState := Some (state g) \<rparr>
      in if command = Some (StringCommand ''FinishGame'') \<or> command = Some FinishGameObject
         then Inr (Break, g0)
         else
           (case command of
              None \<Rightarrow> Inr (Continue, g0)
            | Some c \<Rightarrow>
                if c = StringCommand [] then Inr (Continue, g0)
                else
                  (case controlCommandOf c of
                     Inl e \<Rightarrow> Inl (e, g0)
                   | Inr controlCommand \<Rightarrow>
                       (case GameCommand_execute rnd controlCommand g0 of
                          Inl t \<Rightarrow> Inl t
                        | Inr g1 \<Rightarrow>
                            Inr (Continue,
                                 notify (NotifyDefault
                                           \<lparr> before = beforeState g1, after = state g1 \<rparr>)
                                   g1)))))"

definition Game_runStep :: "random \<Rightarrow> game \<Rightarrow> (stepResult \<times> game) thrown" where
  "Game_runStep rnd g =
     (let command = inputSeq g (polled g)
      in Game_runStepWithCommand rnd (g \<lparr> polled := polled g + 1 \<rparr>) command)"

text \<open>The game as a call has left it, whether the call returned or threw.\<close>

fun gameAfter :: "game thrown \<Rightarrow> game" where
  "gameAfter (Inl (e, g)) = g"
| "gameAfter (Inr g) = g"

fun gameAfterStep :: "(stepResult \<times> game) thrown \<Rightarrow> game" where
  "gameAfterStep (Inl (e, g)) = g"
| "gameAfterStep (Inr (r, g)) = g"

text \<open>
  A caller feeding commands one by one to \<^verbatim>\<open>runStepWithCommand\<close>, going on after a
  \<open>break\<close> and after a thrown error.
\<close>

fun runCommands :: "random \<Rightarrow> game \<Rightarrow> commandType option list \<Rightarrow> game" where
  "runCommands rnd g [] = g"
| "runCommands rnd g (c # cs) = runCommands rnd (gameAfterStep (Game_runStepWithCommand rnd g c)) cs"

text \<open>The transitions among the \<open>default\<close> notifications of a trace.\<close>

fun defaultTransitions :: "notification list \<Rightarrow> transition list" where
  "defaultTransitions [] = []"
| "defaultTransitions (NotifyDefault t # es) = t # defaultTransitions es"
| "defaultTransitions (_ # es) = defaultTransitions es"

text \<open>
  Sequences of the four static transition functions, for reachability. A call that throws
  ends the sequence with its error.
\<close>

datatype stateOp = OpInit | OpLaunchBall | OpIncrementBalls | OpTriggerRush

fun applyOp :: "ballsConfig \<Rightarrow> gameState \<Rightarrow> stateOp \<Rightarrow> error + gameState" where
  "applyOp c s OpInit = GameState_init s c"
| "applyOp c s OpLaunchBall = GameState_launchBall s"
| "applyOp c s OpIncrementBalls = GameState_incrementBalls s c"
| "applyOp c s OpTriggerRush = GameState_triggerRush s c"

fun applyOps :: "ballsConfig \<Rightarrow> gameState \<Rightarrow> stateOp list \<Rightarrow> error + gameState" where
  "applyOps c s [] = Inr s"
| "applyOps c s (x # xs) =
     (case applyOp c s x of Inl e \<Rightarrow> Inl e | Inr s' \<Rightarrow> applyOps c s' xs)"

text \<open>The numeric fields of a state are not negative, and the streak is at least 1.\<close>

fun fieldsNonNegative :: "gameState \<Rightarrow> bool" where
  "fieldsNonNegative Uninitialized = True"
| "fieldsNonNegative (Normal b) = (0 \<le> b)"
| "fieldsNonNegative (Rush b rb n) = (0 \<le> b \<and> 0 \<le> rb \<and> 1 \<le> n)"

text \<open>The stronger invariant the transitions keep: every count of an active state is positive.\<close>

fun fieldsPositive :: "gameState \<Rightarrow> bool" where
  "fieldsPositive Uninitialized = True"
| "fieldsPositive (Normal b) = (1 \<le> b)"
| "fieldsPositive (Rush b rb n) = (1 \<le> b \<and> 1 \<le> rb \<and> 1 \<le> n)"

definition CONFIG_EXAMPLE :: config where
  "CONFIG_EXAMPLE =
     \<lparr> balls = \<lparr> initBalls = 1000, incrementalBalls = 15, incrementalRush = 300 \<rparr>,
       probability =
         \<lparr> normal = \<lparr> win = 16 / 100, fakeWin = 3 / 10, fakeLose = 15 / 100 \<rparr>,
           rush = \<lparr> win = 48 / 100, fakeWin = 2 / 10, fakeLose = 5 / 100 \<rparr>,
           rushContinue = \<lparr> win = 8 / 10, fakeWin = 25 / 100, fakeLose = 1 / 10 \<rparr>,
           rushContinueFn = (\<lambda>n. (6 / 10) powr (real_of_int (n - 1))) \<rparr> \<rparr>"

text \<open>Concrete games and random sources for the worked instances below.\<close>

definition exampleGame :: "gameState \<Rightarrow> game" where
  "exampleGame s =
     \<lparr> beforeState = None, state = s, lottery = probability CONFIG_EXAMPLE,
       config = balls CONFIG_EXAMPLE, isSlotSpinning = False, inputSeq = (\<lambda>i. None),
       polled = 0, outputLog = [], draws = 0 \<rparr>"

text \<open>A game in Rush whose continuation function is the constant 2: \<open>0.8 * 2 > 1\<close>.\<close>

definition overflowGame :: game where
  "overflowGame =
     (exampleGame (Rush 1000 300 1))
       \<lparr> lottery := (probability CONFIG_EXAMPLE) \<lparr> rushContinueFn := (\<lambda>n. 2) \<rparr> \<rparr>"

text \<open>
  Continuation probabilities at the edge: \<open>0.9999999999999999 * 1.0000000000000002\<close>, whose
  exact product exceeds 1 and whose double product is 1; and \<open>2 * -1e309\<close>, which
  overflows to \<open>-Infinity\<close>.
\<close>

definition nearOneProbability :: probability where
  "nearOneProbability =
     \<lparr> normal = \<lparr> win = 16 / 100, fakeWin = 3 / 10, fakeLose = 15 / 100 \<rparr>,
       rush = \<lparr> win = 48 / 100, fakeWin = 2 / 10, fakeLose = 5 / 100 \<rparr>,
       rushContinue = \<lparr> win = 1 - 1 / 2 ^ 53, fakeWin = 25 / 100, fakeLose = 1 / 10 \<rparr>,
       rushContinueFn = (\<lambda>n. 1 + 1 / 2 ^ 52) \<rparr>"

definition negativeOverflowProbability :: probability where
  "negativeOverflowProbability =
     \<lparr> normal = \<lparr> win = 16 / 100, fakeWin = 3 / 10, fakeLose = 15 / 100 \<rparr>,
       rush = \<lparr> win = 48 / 100, fakeWin = 2 / 10, fakeLose = 5 / 100 \<rparr>,
       rushContinue = \<lparr> win = 2, fakeWin = 25 / 100, fakeLose = 1 / 10 \<rparr>,
       rushContinueFn = (\<lambda>n. - (10 ^ 309)) \<rparr>"

definition loseAfter :: "nat \<Rightarrow> random" where
  "loseAfter m = (\<lambda>k. if k < m then 0 else 9 / 10)"

text \<open>What a call has appended to the output log.\<close>

definition emitted :: "game \<Rightarrow> game \<Rightarrow> notification list" where
  "emitted g g' = drop (length (outputLog g)) (outputLog g')"

text \<open>
  A call is quiet when it keeps \<open>beforeState\<close> and appends no \<open>default\<close> notification.
\<close>

definition quiet :: "game \<Rightarrow> game \<Rightarrow> bool" where
  "quiet g g' \<longleftrightarrow>
     beforeState g' = beforeState g \<and>
     (\<exists>es. outputLog g' = outputLog g @ es \<and> defaultTransitions es = [])"

definition neverNullBefore :: "game \<Rightarrow> bool" where
  "neverNullBefore g \<longleftrightarrow> (\<forall>t \<in> set (defaultTransitions (outputLog g)). before t \<noteq> None)"

section \<open>Theorems\<close>

subsection \<open>Configuration\<close>

lemma throwIfErrors_Inr [simp]: "throwIfErrors es = Inr u \<longleftrightarrow> es = []"
  by (simp add: throwIfErrors_def)

lemma caughtErrors_throwIfErrors [simp]: "caughtErrors (throwIfErrors es) = es"
  by (cases es) (simp_all add: throwIfErrors_def)

lemma BallsConfig_validate_ok: "BallsConfig_validate c = Inr () \<longleftrightarrow> 1 \<le> initBalls c"
  by (simp add: BallsConfig_validate_def)

lemma SlotProbability_validate_ok:
  "SlotProbability_validate p = Inr () \<longleftrightarrow>
     0 \<le> win p \<and> win p \<le> 1 \<and> 0 \<le> fakeWin p \<and> fakeWin p \<le> 1 \<and>
     0 \<le> fakeLose p \<and> fakeLose p \<le> 1"
  by (auto simp: SlotProbability_validate_def)

lemma Config_validate_balls: "Config_validate c = Inr () \<Longrightarrow> 1 \<le> initBalls (balls c)"
  by (simp add: Config_validate_def BallsConfig_validate_def split: if_splits)

subsection \<open>State machine\<close>

lemma applyOp_fieldsPositive:
  assumes "1 \<le> initBalls c" "0 \<le> incrementalBalls c" "1 \<le> incrementalRush c"
    and "fieldsPositive s" "applyOp c s x = Inr s'"
  shows "fieldsPositive s'"
  using assms by (cases x; cases s) (auto simp: Let_def split: if_splits)

lemma applyOps_fieldsPositive:
  assumes "1 \<le> initBalls c" "0 \<le> incrementalBalls c" "1 \<le> incrementalRush c"
  shows "fieldsPositive s \<Longrightarrow> applyOps c s xs = Inr s' \<Longrightarrow> fieldsPositive s'"
proof (induction xs arbitrary: s)
  case Nil
  then show ?case by simp
next
  case (Cons x xs)
  from Cons.prems(2) obtain s1 where s1: "applyOp c s x = Inr s1" "applyOps c s1 xs = Inr s'"
    by (auto split: sum.splits)
  from applyOp_fieldsPositive [OF assms Cons.prems(1) s1(1)] have "fieldsPositive s1" .
  with Cons.IH s1(2) show ?case by blast
qed

lemma fieldsPositive_nonNegative: "fieldsPositive s \<Longrightarrow> fieldsNonNegative s"
  by (cases s) auto

text \<open>
  Claim C1 (as stated): every state reachable from \<open>Uninitialized\<close> under a configuration
  that \<open>Config.validate\<close> accepts has non-negative fields. This fails:
  \<open>Config.validate\<close> checks only \<open>initBalls\<close>. With \<open>incrementalBalls = -5\<close> an accepted
  configuration reaches \<open>Normal(-4)\<close> by \<open>init\<close>, \<open>incrementBalls\<close>; with
  \<open>incrementalRush = 0\<close> one reaches \<open>Rush(16, -1, 1)\<close> by \<open>init\<close>, \<open>triggerRush\<close>,
  \<open>launchBall\<close> (the rush pool is compared with 0 only after the decrement).
\<close>

theorem C1_counterexample:
  "Config_validate
     (CONFIG_EXAMPLE \<lparr> balls := \<lparr> initBalls = 1, incrementalBalls = -5, incrementalRush = 300 \<rparr> \<rparr>)
     = Inr ()
   \<and> applyOps \<lparr> initBalls = 1, incrementalBalls = -5, incrementalRush = 300 \<rparr> Uninitialized
        [OpInit, OpIncrementBalls] = Inr (Normal (-4))
   \<and> \<not> fieldsNonNegative (Normal (-4))
   \<and> Config_validate
     (CONFIG_EXAMPLE \<lparr> balls := \<lparr> initBalls = 1, incrementalBalls = 15, incrementalRush = 0 \<rparr> \<rparr>)
     = Inr ()
   \<and> applyOps \<lparr> initBalls = 1, incrementalBalls = 15, incrementalRush = 0 \<rparr> Uninitialized
        [OpInit, OpTriggerRush, OpLaunchBall] = Inr (Rush 16 (-1) 1)
   \<and> \<not> fieldsNonNegative (Rush 16 (-1) 1)"
  by (simp add: CONFIG_EXAMPLE_def Config_validate_def BallsConfig_validate_def
      Probability_validate_def SlotProbability_validate_def throwIfErrors_def)

text \<open>
  Claim C1 (amended): for integer-valued ball parameters, under a configuration accepted by
  \<open>Config.validate\<close> whose \<open>incrementalBalls\<close> is at least 0 and whose \<open>incrementalRush\<close>
  is at least 1, every state reachable from \<open>Uninitialized\<close> by any sequence of \<open>init\<close>,
  \<open>launchBall\<close>, \<open>incrementBalls\<close> and \<open>triggerRush\<close> has \<open>balls \<ge> 0\<close> (Normal and Rush),
  \<open>rushBalls \<ge> 0\<close> and \<open>n \<ge> 1\<close> (Rush).
\<close>

theorem C1_reachable_fields_nonnegative:
  assumes "Config_validate c = Inr ()"
    and "0 \<le> incrementalBalls (balls c)"
    and "1 \<le> incrementalRush (balls c)"
    and "applyOps (balls c) Uninitialized ops = Inr s"
  shows "fieldsNonNegative s"
proof -
  have "1 \<le> initBalls (balls c)"
    using assms(1) by (rule Config_validate_balls)
  then have "fieldsPositive s"
    using assms(2,3) applyOps_fieldsPositive [of "balls c" Uninitialized ops s] assms(4)
    by simp
  then show ?thesis by (rule fieldsPositive_nonNegative)
qed

theorem C1_witness:
  "Config_validate CONFIG_EXAMPLE = Inr ()
   \<and> 0 \<le> incrementalBalls (balls CONFIG_EXAMPLE)
   \<and> 1 \<le> incrementalRush (balls CONFIG_EXAMPLE)
   \<and> applyOps (balls CONFIG_EXAMPLE) Uninitialized
        [OpInit, OpLaunchBall, OpTriggerRush, OpIncrementBalls, OpTriggerRush, OpLaunchBall]
       = Inr (Rush 1044 599 2)
   \<and> fieldsNonNegative (Rush 1044 599 2)"
proof -
  have v: "Config_validate CONFIG_EXAMPLE = Inr ()"
    by (simp add: CONFIG_EXAMPLE_def Config_validate_def BallsConfig_validate_def
        Probability_validate_def SlotProbability_validate_def throwIfErrors_def)
  have a: "0 \<le> incrementalBalls (balls CONFIG_EXAMPLE)"
    and b: "1 \<le> incrementalRush (balls CONFIG_EXAMPLE)"
    by (simp_all add: CONFIG_EXAMPLE_def)
  have r: "applyOps (balls CONFIG_EXAMPLE) Uninitialized
        [OpInit, OpLaunchBall, OpTriggerRush, OpIncrementBalls, OpTriggerRush, OpLaunchBall]
       = Inr (Rush 1044 599 2)"
    by (simp add: CONFIG_EXAMPLE_def)
  from C1_reachable_fields_nonnegative [OF v a b r] v a b r show ?thesis by simp
qed

text \<open>
  Claim C2: \<open>GameState.launchBall\<close> fails with \<open>UninitializedError\<close> from \<open>Uninitialized\<close>;
  from \<open>Normal(b)\<close> it returns \<open>Normal(b-1)\<close> when \<open>b-1 > 0\<close> and \<open>Uninitialized\<close> when
  \<open>b-1 = 0\<close>; from \<open>Rush(b, rb, n)\<close> it returns \<open>Rush(b, rb-1, n)\<close> when \<open>rb-1 > 0\<close> and
  \<open>Normal(b)\<close> when \<open>rb-1 = 0\<close>.
\<close>

theorem C2_launchBall:
  "GameState_launchBall Uninitialized = Inl UninitializedError
   \<and> (b - 1 > 0 \<longrightarrow> GameState_launchBall (Normal b) = Inr (Normal (b - 1)))
   \<and> (b - 1 = 0 \<longrightarrow> GameState_launchBall (Normal b) = Inr Uninitialized)
   \<and> (rb - 1 > 0 \<longrightarrow> GameState_launchBall (Rush b' rb n) = Inr (Rush b' (rb - 1) n))
   \<and> (rb - 1 = 0 \<longrightarrow> GameState_launchBall (Rush b' rb n) = Inr (Normal b'))"
  by (simp add: Let_def)

theorem C2_launchBall_witness:
  "GameState_launchBall Uninitialized = Inl UninitializedError
   \<and> (5::int) - 1 > 0 \<and> GameState_launchBall (Normal 5) = Inr (Normal 4)
   \<and> (1::int) - 1 = 0 \<and> GameState_launchBall (Normal 1) = Inr Uninitialized
   \<and> GameState_launchBall (Rush 7 5 2) = Inr (Rush 7 4 2)
   \<and> GameState_launchBall (Rush 7 1 2) = Inr (Normal 7)"
  using C2_launchBall [of 5 5 7 2] C2_launchBall [of 1 1 7 2] by simp

subsection \<open>Slot producer\<close>

lemma random_bounds: "randomInRange rnd \<Longrightarrow> 0 \<le> rnd k \<and> rnd k < 1"
  by (simp add: randomInRange_def)

lemma floor_random_int:
  assumes "randomInRange rnd" and "0 < m"
  shows "0 \<le> \<lfloor>rnd k * real_of_int m\<rfloor> \<and> \<lfloor>rnd k * real_of_int m\<rfloor> < m"
proof -
  have r: "0 \<le> rnd k" "rnd k < 1"
    using random_bounds [OF assms(1), of k] by simp_all
  have "rnd k * real_of_int m < 1 * real_of_int m"
    using r assms(2) by (intro mult_strict_right_mono) simp_all
  then have "\<lfloor>rnd k * real_of_int m\<rfloor> < m"
    by (simp add: floor_less_iff)
  moreover have "0 \<le> \<lfloor>rnd k * real_of_int m\<rfloor>"
    using r assms(2) by simp
  ultimately show ?thesis by simp
qed

lemma floor_random_nat:
  assumes "randomInRange rnd" and "0 < n"
  shows "0 \<le> \<lfloor>rnd k * real n\<rfloor> \<and> \<lfloor>rnd k * real n\<rfloor> < int n"
  using floor_random_int [OF assms(1), of "int n" k] assms(2) by simp

lemma jsGet_nth: "0 \<le> i \<Longrightarrow> i < int (length a) \<Longrightarrow> jsGet a i = a ! nat i"
  by (simp add: jsGet_def)

lemma jsSet_update: "0 \<le> i \<Longrightarrow> i < int (length a) \<Longrightarrow> jsSet a i v = a[nat i := v]"
  by (simp add: jsSet_def)

lemma shuffleLoop_mset:
  assumes "randomInRange rnd"
  shows "i < length a \<Longrightarrow> mset (fst (shuffleLoop i a rnd k)) = mset a"
proof (induction i arbitrary: a k)
  case 0
  then show ?case by simp
next
  case (Suc i')
  let ?j = "\<lfloor>rnd k * real_of_int (int (Suc i') + 1)\<rfloor>"
  have j: "0 \<le> ?j" "?j < int (Suc i') + 1"
    using floor_random_int [OF assms, of "int (Suc i') + 1" k] by simp_all
  then have jl: "nat ?j < length a"
    using Suc.prems by linarith
  let ?a' = "a[Suc i' := a ! nat ?j, nat ?j := a ! Suc i']"
  have step: "jsSet (jsSet a (int (Suc i')) (jsGet a ?j)) ?j (jsGet a (int (Suc i'))) = ?a'"
    using j jl Suc.prems by (simp add: jsGet_def jsSet_def del: of_nat_Suc)
  have "mset ?a' = mset a"
    using mset_swap [of "nat ?j" a "Suc i'"] jl Suc.prems by simp
  moreover have "i' < length ?a'"
    using Suc.prems by simp
  ultimately have "mset (fst (shuffleLoop i' ?a' rnd (k + 1))) = mset a"
    using Suc.IH [of ?a' "k + 1"] by simp
  then show ?case
    using step by (simp add: Let_def)
qed

lemma shuffleArray_mset:
  assumes "randomInRange rnd"
  shows "mset (fst (shuffleArray a rnd k)) = mset a"
proof (cases a)
  case Nil
  then show ?thesis by (simp add: shuffleArray_def)
next
  case (Cons x xs)
  then show ?thesis
    using shuffleLoop_mset [OF assms, of "length a - 1" a k] by (simp add: shuffleArray_def)
qed

lemma sampleLoop_result:
  assumes "randomInRange rnd" and "cs \<noteq> []"
  shows "length (fst (sampleLoop m cs rnd k)) = m \<and> set (fst (sampleLoop m cs rnd k)) \<subseteq> set cs"
proof (induction m arbitrary: k)
  case 0
  then show ?case by simp
next
  case (Suc m)
  have "0 \<le> \<lfloor>rnd k * real (length cs)\<rfloor> \<and> \<lfloor>rnd k * real (length cs)\<rfloor> < int (length cs)"
    using floor_random_nat [OF assms(1), of "length cs" k] assms(2) by simp
  moreover from this have "nat \<lfloor>rnd k * real (length cs)\<rfloor> < length cs"
    by linarith
  ultimately have "jsGet cs \<lfloor>rnd k * real (length cs)\<rfloor> \<in> set cs"
    by (simp add: jsGet_def)
  then show ?case
    using Suc.IH [of "k + 1"] by (auto simp add: Let_def split: prod.splits)
qed

lemma jsSlice_take:
  "0 \<le> p \<Longrightarrow> p \<le> int (length a) \<Longrightarrow> jsSlice a 0 p = take (nat p) a"
  by (simp add: jsSlice_def sliceIndex_def Let_def)

lemma jsSlice_drop:
  "0 \<le> p \<Longrightarrow> p \<le> int (length a) \<Longrightarrow> jsSlice a p (int (length a)) = drop (nat p) a"
  by (simp add: jsSlice_def sliceIndex_def Let_def)

text \<open>
  Claim C7: for every catalog of at least two pairwise distinct symbols, every reel length
  \<open>L \<ge> 2\<close> and every outcome of the random draws, \<open>produceLose\<close> returns exactly \<open>L\<close>
  symbols of the catalog, and they are not all identical.
\<close>

theorem C7_produceLose_not_all_equal:
  assumes "randomInRange rnd"
    and "2 \<le> length (choices sp)"
    and "distinct (choices sp)"
    and "2 \<le> length_sp sp"
  shows "length (fst (SlotProducer_produceLose sp rnd k)) = nat (length_sp sp)
       \<and> set (fst (SlotProducer_produceLose sp rnd k)) \<subseteq> Some ` set (choices sp)
       \<and> (\<exists>x \<in> set (fst (SlotProducer_produceLose sp rnd k)).
            \<exists>y \<in> set (fst (SlotProducer_produceLose sp rnd k)). x \<noteq> y)"
proof -
  obtain refChoices k1 where sh: "shuffleArray (map Some (choices sp)) rnd k = (refChoices, k1)"
    by (cases "shuffleArray (map Some (choices sp)) rnd k")
  have ms: "mset refChoices = mset (map Some (choices sp))"
    using shuffleArray_mset [OF assms(1), of "map Some (choices sp)" k] sh by simp
  have len: "length refChoices = length (choices sp)"
    using ms by (metis length_map size_mset)
  have dist: "distinct refChoices"
    using ms assms(3) by (metis distinct_map inj_on_def mset_eq_imp_distinct_iff option.inject)
  have st: "set refChoices = Some ` set (choices sp)"
    using ms by (metis set_map set_mset_mset)
  define partition where "partition = \<lfloor>rnd k1 * real_of_int (int (length refChoices) - 1)\<rfloor> + 1"
  define cnt1 where "cnt1 = \<lfloor>rnd (k1 + 1) * real_of_int (length_sp sp - 1)\<rfloor> + 1"
  define choices1 where "choices1 = jsSlice refChoices 0 partition"
  define choices2 where "choices2 = jsSlice refChoices partition (int (length refChoices))"
  have p: "1 \<le> partition" "partition < int (length refChoices)"
    using floor_random_int [OF assms(1), of "int (length refChoices) - 1" k1] assms(2) len
    by (simp_all add: partition_def)
  have c: "1 \<le> cnt1" "cnt1 < length_sp sp"
    using floor_random_int [OF assms(1), of "length_sp sp - 1" "k1 + 1"] assms(4)
    by (simp_all add: cnt1_def)
  have c1: "choices1 = take (nat partition) refChoices"
    using p by (simp add: choices1_def jsSlice_take)
  have c2: "choices2 = drop (nat partition) refChoices"
    using p by (simp add: choices2_def jsSlice_drop)
  have ne1: "choices1 \<noteq> []" and ne2: "choices2 \<noteq> []"
    using p by (auto simp: c1 c2)
  have disj: "set choices1 \<inter> set choices2 = {}"
    using dist distinct_append [of choices1 choices2] by (simp add: c1 c2)
  have sub: "set choices1 \<subseteq> set refChoices" "set choices2 \<subseteq> set refChoices"
    by (auto simp: c1 c2 dest: in_set_takeD in_set_dropD)
  obtain result1 k2 where s1: "sampleLoop (nat cnt1) choices1 rnd (k1 + 2) = (result1, k2)"
    by (cases "sampleLoop (nat cnt1) choices1 rnd (k1 + 2)")
  obtain result2 k3 where s2: "sampleLoop (nat (length_sp sp - cnt1)) choices2 rnd k2 = (result2, k3)"
    by (cases "sampleLoop (nat (length_sp sp - cnt1)) choices2 rnd k2")
  have r1: "length result1 = nat cnt1" "set result1 \<subseteq> set choices1"
    using sampleLoop_result [OF assms(1) ne1, of "nat cnt1" "k1 + 2"] s1 by simp_all
  have r2: "length result2 = nat (length_sp sp - cnt1)" "set result2 \<subseteq> set choices2"
    using sampleLoop_result [OF assms(1) ne2, of "nat (length_sp sp - cnt1)" k2] s2 by simp_all
  have res: "SlotProducer_produceLose sp rnd k = shuffleArray (result1 @ result2) rnd k3"
    using sh s1 s2
    by (simp add: SlotProducer_produceLose_def Let_def partition_def cnt1_def choices1_def
        choices2_def)
  have m: "mset (fst (SlotProducer_produceLose sp rnd k)) = mset (result1 @ result2)"
    using shuffleArray_mset [OF assms(1), of "result1 @ result2" k3] res by simp
  have l: "length (fst (SlotProducer_produceLose sp rnd k)) = length (result1 @ result2)"
    using m by (metis size_mset)
  have s: "set (fst (SlotProducer_produceLose sp rnd k)) = set (result1 @ result2)"
    using m by (metis set_mset_mset)
  have "length (result1 @ result2) = nat (length_sp sp)"
    using r1(1) r2(1) c by simp
  moreover have "set (result1 @ result2) \<subseteq> Some ` set (choices sp)"
    using r1(2) r2(2) sub st by auto
  moreover have "\<exists>x \<in> set (result1 @ result2). \<exists>y \<in> set (result1 @ result2). x \<noteq> y"
  proof -
    have "result1 \<noteq> []" "result2 \<noteq> []"
      using r1(1) r2(1) c by auto
    then obtain x y where "x \<in> set result1" "y \<in> set result2"
      by (meson last_in_set)
    moreover from this have "x \<noteq> y"
      using r1(2) r2(2) disj by auto
    ultimately show ?thesis by auto
  qed
  ultimately show ?thesis
    using l s by simp
qed

theorem C7_witness:
  "randomInRange (\<lambda>k. 0)
   \<and> 2 \<le> length (choices Game_slotProducer)
   \<and> distinct (choices Game_slotProducer)
   \<and> 2 \<le> length_sp Game_slotProducer
   \<and> fst (SlotProducer_produceLose Game_slotProducer (\<lambda>k. 0) 0) = [Some 3, Some 3, Some 2]
   \<and> length (fst (SlotProducer_produceLose Game_slotProducer (\<lambda>k. 0) 0)) = 3
   \<and> (\<exists>x \<in> set (fst (SlotProducer_produceLose Game_slotProducer (\<lambda>k. 0) 0)).
         \<exists>y \<in> set (fst (SlotProducer_produceLose Game_slotProducer (\<lambda>k. 0) 0)). x \<noteq> y)"
proof -
  have r: "randomInRange (\<lambda>k. 0)"
    by (simp add: randomInRange_def)
  have c: "2 \<le> length (choices Game_slotProducer)" "distinct (choices Game_slotProducer)"
    "2 \<le> length_sp Game_slotProducer"
    by (simp_all add: Game_slotProducer_def)
  have v: "fst (SlotProducer_produceLose Game_slotProducer (\<lambda>k. 0) 0)
             = [Some 3, Some 3, Some 2]"
    by code_simp
  from C7_produceLose_not_all_equal [OF r c, of 0] r c v show ?thesis
    by (simp add: Game_slotProducer_def)
qed

lemma shift_mod:
  fixes ci n d :: int
  assumes "0 \<le> ci" "ci < n" "2 \<le> n" "d = 1 \<or> d = - 1"
  shows "(ci + d + n) mod n \<noteq> ci"
proof
  assume "(ci + d + n) mod n = ci"
  then have "(ci + d) mod n = ci mod n"
    using assms(1,2) by simp
  then have "n dvd (ci + d - ci)"
    by (simp only: mod_eq_dvd_iff)
  then have "n dvd d" by simp
  then have "n dvd 1"
    using assms(4) by auto
  then show False
    using assms(3) by simp
qed

lemma jsRem_nonneg: "0 \<le> a \<Longrightarrow> 0 < b \<Longrightarrow> jsRem a b = Some (a mod b)"
  by (cases "a = 0") (simp_all add: jsRem_def)

text \<open>
  Claim C8: for every catalog of at least two pairwise distinct symbols, whatever the
  configured reel length and the random draws, \<open>produceFakeLose\<close> returns exactly three
  symbols of the catalog, the first equal to the third and different from the second.
\<close>

theorem C8_produceFakeLose_near_miss:
  assumes "randomInRange rnd"
    and "2 \<le> length (choices sp)"
    and "distinct (choices sp)"
  shows "length (fst (SlotProducer_produceFakeLose sp rnd k)) = 3
       \<and> fst (SlotProducer_produceFakeLose sp rnd k) ! 0
           = fst (SlotProducer_produceFakeLose sp rnd k) ! 2
       \<and> fst (SlotProducer_produceFakeLose sp rnd k) ! 0
           \<noteq> fst (SlotProducer_produceFakeLose sp rnd k) ! 1
       \<and> set (fst (SlotProducer_produceFakeLose sp rnd k)) \<subseteq> Some ` set (choices sp)"
proof -
  define n where "n = int (length (choices sp))"
  define ci where "ci = \<lfloor>rnd k * real (length (choices sp))\<rfloor>"
  define d :: int where "d = (if rnd (k + 1) < 1 / 2 then - 1 else 1)"
  define sh where "sh = (ci + d + n) mod n"
  have n: "2 \<le> n"
    using assms(2) by (simp add: n_def)
  have "0 < length (choices sp)"
    using assms(2) by linarith
  then have ci: "0 \<le> ci" "ci < n"
    using floor_random_nat [OF assms(1), of "length (choices sp)" k]
    by (simp_all add: ci_def n_def)
  have d: "d = 1 \<or> d = - 1"
    by (simp add: d_def)
  have pos: "0 \<le> ci + d + n"
    using ci n d by auto
  have rem: "jsRem (ci + d + n) n = Some sh"
    using jsRem_nonneg [OF pos, of n] n by (simp add: sh_def)
  have sh: "0 \<le> sh" "sh < n" "sh \<noteq> ci"
    using n shift_mod [OF ci n d] by (simp_all add: sh_def)
  have gi: "jsGet (map Some (choices sp)) ci = Some (choices sp ! nat ci)"
    using ci by (simp add: jsGet_def n_def)
  have gs: "jsGet (map Some (choices sp)) sh = Some (choices sp ! nat sh)"
    using sh by (simp add: jsGet_def n_def)
  have res: "fst (SlotProducer_produceFakeLose sp rnd k)
               = [Some (choices sp ! nat ci), Some (choices sp ! nat sh), Some (choices sp ! nat ci)]"
    unfolding SlotProducer_produceFakeLose_def Let_def length_map
      ci_def [symmetric] n_def [symmetric] d_def [symmetric]
    using rem gi gs by simp
  have il: "nat ci < length (choices sp)" "nat sh < length (choices sp)"
    using ci sh by (simp_all add: n_def)
  have "nat ci \<noteq> nat sh"
    using ci sh by simp
  then have "choices sp ! nat ci \<noteq> choices sp ! nat sh"
    using assms(3) il by (simp add: nth_eq_iff_index_eq)
  then show ?thesis
    using res il by simp
qed

theorem C8_witness:
  "randomInRange (\<lambda>k. 0)
   \<and> 2 \<le> length (choices Game_slotProducer)
   \<and> distinct (choices Game_slotProducer)
   \<and> fst (SlotProducer_produceFakeLose Game_slotProducer (\<lambda>k. 0) 0) = [Some 1, Some 9, Some 1]
   \<and> length (fst (SlotProducer_produceFakeLose Game_slotProducer (\<lambda>k. 0) 0)) = 3
   \<and> fst (SlotProducer_produceFakeLose Game_slotProducer (\<lambda>k. 0) 0) ! 0
       \<noteq> fst (SlotProducer_produceFakeLose Game_slotProducer (\<lambda>k. 0) 0) ! 1"
proof -
  have r: "randomInRange (\<lambda>k. 0)"
    by (simp add: randomInRange_def)
  have c: "2 \<le> length (choices Game_slotProducer)" "distinct (choices Game_slotProducer)"
    by (simp_all add: Game_slotProducer_def)
  have v: "fst (SlotProducer_produceFakeLose Game_slotProducer (\<lambda>k. 0) 0)
             = [Some 1, Some 9, Some 1]"
    by (simp add: SlotProducer_produceFakeLose_def Game_slotProducer_def jsRem_def jsGet_def
        Let_def)
  from C8_produceFakeLose_near_miss [OF r c, of 0] r c v show ?thesis
    by simp
qed

subsection \<open>Lottery and the orchestrator's lottery step\<close>

lemmas eval_defs = exampleGame_def CONFIG_EXAMPLE_def Lottery_lotteryNormal_def
  Lottery_lotteryRush_def Lottery_lottery_def Lottery_lotteryRushContinue_def Let_def

text \<open>The producer of \<open>Game\<close> (reel length 3) never throws.\<close>

lemma produce_Game_slotProducer:
  "\<exists>s. fst (SlotProducer_produce Game_slotProducer r rnd k) = Inr s"
proof (cases r)
  case (Win w)
  then show ?thesis
    by (cases w) (simp_all add: SlotProducer_produceWin_def Game_slotProducer_def Let_def
        split: prod.splits)
next
  case (Lose l)
  then show ?thesis
    by (cases l) (simp_all split: prod.splits)
qed

text \<open>
  Claim C3: from \<open>Normal(b)\<close>, when \<open>Game.causeLottery\<close> runs and the normal-mode draw is a
  Win of either sub-kind, \<open>causeLottery\<close> returns and the new state is
  \<open>Rush(b + incrementalBalls, incrementalRush, 1)\<close>. It holds for every game, so in
  particular for every game built from a valid configuration.
\<close>

theorem C3_causeLottery_enters_rush:
  assumes "state g = Normal b"
    and "fst (Lottery_lotteryNormal (lottery g) rnd (draws g)) = Win w"
  shows "\<exists>g'. Game_causeLottery rnd g = Inr g'
           \<and> state g' = Rush (b + incrementalBalls (config g)) (incrementalRush (config g)) 1"
proof -
  obtain k1 where l: "Lottery_lotteryNormal (lottery g) rnd (draws g) = (Win w, k1)"
    using assms(2) by (cases "Lottery_lotteryNormal (lottery g) rnd (draws g)") simp
  obtain s k2 where p: "SlotProducer_produce Game_slotProducer (Win w) rnd k1 = (Inr s, k2)"
    using produce_Game_slotProducer [of "Win w" rnd k1]
    by (cases "SlotProducer_produce Game_slotProducer (Win w) rnd k1") auto
  show ?thesis
    using assms(1) l p
    by (simp add: Game_causeLottery_def Game_setSlotSpinning_def notify_def Let_def)
qed

theorem C3_witness:
  "state (exampleGame (Normal 1000)) = Normal 1000
   \<and> fst (Lottery_lotteryNormal (lottery (exampleGame (Normal 1000))) (\<lambda>k. 0)
            (draws (exampleGame (Normal 1000)))) = Win FakeWin
   \<and> (\<exists>g'. Game_causeLottery (\<lambda>k. 0) (exampleGame (Normal 1000)) = Inr g'
           \<and> state g' = Rush 1015 300 1)"
proof -
  have s: "state (exampleGame (Normal 1000)) = Normal 1000"
    by (simp add: exampleGame_def)
  have l: "fst (Lottery_lotteryNormal (lottery (exampleGame (Normal 1000))) (\<lambda>k. 0)
            (draws (exampleGame (Normal 1000)))) = Win FakeWin"
    by (simp add: eval_defs)
  from C3_causeLottery_enters_rush [OF s l] s l show ?thesis
    by (simp add: exampleGame_def CONFIG_EXAMPLE_def)
qed

text \<open>
  Rounding to binary64: the rounded integer is next to the exact quotient, the exponent of
  a magnitude in \<open>[1, 2)\<close> is 0 and in \<open>[1/2, 1)\<close> is \<open>-1\<close>, and a magnitude from
  \<open>2\<^sup>1\<^sup>0\<^sup>2\<^sup>4\<close> on overflows.
\<close>

lemma roundHalfEven_bounds: "\<lfloor>q\<rfloor> \<le> roundHalfEven q \<and> roundHalfEven q \<le> \<lfloor>q\<rfloor> + 1"
  by (simp add: roundHalfEven_def Let_def)

lemma exponentOf_unit: "1 \<le> a \<Longrightarrow> a < 2 \<Longrightarrow> exponentOf a = 0"
proof -
  assume a: "1 \<le> a" "a < 2"
  have "(1024 :: nat) = Suc 1023" by simp
  then show ?thesis
    using a by (simp only: exponentOf_def binadeUp.simps if_True)
qed

lemma exponentOf_half: "1 / 2 \<le> a \<Longrightarrow> a < 1 \<Longrightarrow> exponentOf a = - 1"
proof -
  assume a: "1 / 2 \<le> a" "a < 1"
  have n: "(1022 :: nat) = Suc (Suc 1020)" by simp
  have "exponentOf a = binadeDown 1022 a 0"
    using a by (simp add: exponentOf_def)
  also have "\<dots> = binadeDown (Suc (Suc 1020)) a 0"
    by (simp only: n)
  also have "\<dots> = binadeDown (Suc 1020) (a * 2) (0 - 1)"
    using a by (simp only: binadeDown.simps not_le [symmetric] if_False)
  also have "\<dots> = 0 - 1"
    using a by (simp only: binadeDown.simps) simp
  finally show ?thesis by simp
qed

lemma roundToDouble_small:
  assumes "0 < x" and "exponentOf x = e" and "power_int (2 :: real) (e - 52) = u"
    and "0 < u" and "u \<le> 1" and "x / u < 2 ^ 53"
  shows "roundToDouble x = Finite (real_of_int (roundHalfEven (x / u)) * u)"
proof -
  have sg: "sgn x = 1" "\<bar>x\<bar> = x"
    using assms(1) by simp_all
  define v where "v = real_of_int (roundHalfEven (x / u)) * u"
  have r: "roundToDouble x =
             (if v \<ge> 2 ^ 1024 then (if x > 0 then PosInfinity else NegInfinity)
              else Finite (sgn x * v))"
    unfolding roundToDouble_def Let_def v_def sg assms(2) assms(3) by (rule refl)
  have "roundHalfEven (x / u) \<le> \<lfloor>x / u\<rfloor> + 1"
    using roundHalfEven_bounds by blast
  moreover have "\<lfloor>x / u\<rfloor> < 2 ^ 53"
    using assms(6) by (simp add: floor_less_iff)
  ultimately have "roundHalfEven (x / u) \<le> 2 ^ 53"
    by linarith
  then have b: "real_of_int (roundHalfEven (x / u)) \<le> 2 ^ 53"
    by (metis of_int_le_iff of_int_numeral of_int_power)
  have "v \<le> 2 ^ 53 * 1"
    unfolding v_def using b assms(4,5) by (intro mult_mono) simp_all
  moreover have "(2 :: real) ^ 53 < 2 ^ 1024"
    by (rule power_strict_increasing) simp_all
  ultimately have "\<not> v \<ge> 2 ^ 1024"
    by linarith
  then show ?thesis
    using r sg by (simp only: if_False v_def mult_1)
qed

lemma binadeUp_full: "2 ^ fuel \<le> a \<Longrightarrow> binadeUp fuel a e = e + int fuel"
proof (induction fuel arbitrary: a e)
  case 0
  then show ?case by simp
next
  case (Suc fuel)
  from Suc.prems have p: "2 * 2 ^ fuel \<le> a"
    by simp
  then have h: "2 ^ fuel \<le> a / 2"
    by simp
  have one: "(1 :: real) \<le> 2 ^ fuel"
    by (rule one_le_power) simp
  from p one have "\<not> a < 2"
    by linarith
  then show ?case
    using Suc.IH [OF h, of "e + 1"] by simp
qed

lemma roundToDouble_overflow:
  assumes "2 ^ 1024 \<le> \<bar>x\<bar>"
  shows "roundToDouble x = (if x > 0 then PosInfinity else NegInfinity)"
proof -
  have one: "1 \<le> \<bar>x\<bar>"
    using assms one_le_power [of "2 :: real" 1024] by linarith
  have e: "exponentOf \<bar>x\<bar> = 1024"
    using one binadeUp_full [OF assms, of 0] by (simp add: exponentOf_def)
  have u: "power_int (2 :: real) (1024 - 52) = 2 ^ 972"
    by (simp add: power_int_def)
  define q where "q = \<bar>x\<bar> / 2 ^ 972"
  have "(2 :: real) ^ 1024 = 2 ^ 52 * 2 ^ 972"
    by (simp flip: power_add)
  then have "2 ^ 52 \<le> q"
    using assms by (simp add: q_def field_simps)
  then have "2 ^ 52 \<le> \<lfloor>q\<rfloor>"
    by (simp add: le_floor_iff)
  then have "2 ^ 52 \<le> roundHalfEven q"
    using roundHalfEven_bounds [of q] by linarith
  then have "(2 :: real) ^ 52 \<le> real_of_int (roundHalfEven q)"
    by (metis of_int_le_iff of_int_numeral of_int_power)
  then have "2 ^ 52 * 2 ^ 972 \<le> real_of_int (roundHalfEven q) * (2 :: real) ^ 972"
    by (intro mult_right_mono) simp_all
  then have "2 ^ 1024 \<le> real_of_int (roundHalfEven q) * (2 :: real) ^ 972"
    by (simp flip: power_add)
  then show ?thesis
    unfolding roundToDouble_def Let_def e u q_def [symmetric] by (simp only: if_True)
qed

lemma roundToDouble_unit:
  assumes "1 \<le> x" and "x < 2"
  shows "roundToDouble x = Finite (real_of_int (roundHalfEven (x * 2 ^ 52)) / 2 ^ 52)"
proof -
  have u: "power_int (2 :: real) (0 - 52) = 1 / 2 ^ 52"
    by (simp add: power_int_def field_simps)
  have "x / (1 / 2 ^ 52) < 2 ^ 53"
    using assms(2) by simp
  then show ?thesis
    using roundToDouble_small [OF _ exponentOf_unit [OF assms] u, simplified] assms(1)
    by simp
qed

lemma roundToDouble_half:
  assumes "1 / 2 \<le> x" and "x < 1"
  shows "roundToDouble x = Finite (real_of_int (roundHalfEven (x * 2 ^ 53)) / 2 ^ 53)"
proof -
  have u: "power_int (2 :: real) (- 1 - 52) = 1 / 2 ^ 53"
    by (simp add: power_int_def field_simps)
  have "x / (1 / 2 ^ 53) < 2 ^ 53"
    using assms(2) by simp
  then show ?thesis
    using roundToDouble_small [OF _ exponentOf_half [OF assms] u, simplified] assms(1)
    by simp
qed

text \<open>
  Worked values of the rounded product. The third and the fourth are
  \<open>0.9999999999999999 * 1.0000000000000002\<close> and \<open>0.3 * 3.3333333333333335\<close>, whose exact
  products exceed 1.
\<close>

lemma jsMultiply_example: "jsMultiply (4 / 5) 1 = Finite (7205759403792794 / 2 ^ 53)"
  using roundToDouble_half [of "4 / 5"]
  by (simp add: jsMultiply_def roundHalfEven_def Let_def)

lemma jsMultiply_overflowGame: "jsMultiply (4 / 5) 2 = Finite (7205759403792794 / 2 ^ 52)"
  using roundToDouble_unit [of "8 / 5"]
  by (simp add: jsMultiply_def roundHalfEven_def Let_def)

lemma jsMultiply_nearOne: "jsMultiply (1 - 1 / 2 ^ 53) (1 + 1 / 2 ^ 52) = Finite 1"
  using roundToDouble_unit [of "(1 - 1 / 2 ^ 53) * (1 + 1 / 2 ^ 52)"]
  by (simp add: jsMultiply_def roundHalfEven_def Let_def)

lemma jsMultiply_threeTenths:
  "jsMultiply (5404319552844595 / 2 ^ 54) (7505999378950827 / 2 ^ 51) = Finite 1"
  using roundToDouble_unit [of "5404319552844595 / 2 ^ 54 * (7505999378950827 / 2 ^ 51)"]
  by (simp add: jsMultiply_def roundHalfEven_def Let_def)

lemma jsMultiply_negativeOverflow: "jsMultiply 2 (- (10 ^ 309)) = NegInfinity"
  using roundToDouble_overflow [of "2 * - (10 ^ 309)"]
  by (simp add: jsMultiply_def)

text \<open>
  Claim C4: \<open>Lottery.lotteryRushContinue(n)\<close> throws \<open>ProbabilityError\<close> if and only if the
  product \<open>rushContinue.win * rushContinueFn(n)\<close>, as the code computes it, is greater than 1,
  and it throws nothing else; when it does not throw, the draw is the one of \<open>lottery\<close>
  against the probabilities whose \<open>win\<close> is that product and whose \<open>fakeWin\<close> and
  \<open>fakeLose\<close> are those of \<open>rushContinue\<close> (a product \<open>-Infinity\<close> acts as any \<open>win\<close>
  not above the draw).
\<close>

theorem C4_lotteryRushContinue:
  "(fst (Lottery_lotteryRushContinue p n rnd k) = Inl ProbabilityError
      \<longleftrightarrow> jsGreater (jsMultiply (win (rushContinue p)) (rushContinueFn p n)) 1)
   \<and> ((\<exists>e. fst (Lottery_lotteryRushContinue p n rnd k) = Inl e)
      \<longleftrightarrow> jsGreater (jsMultiply (win (rushContinue p)) (rushContinueFn p n)) 1)
   \<and> (jsMultiply (win (rushContinue p)) (rushContinueFn p n) = Finite w \<and> \<not> w > 1 \<longrightarrow>
        fst (Lottery_lotteryRushContinue p n rnd k) =
          Inr (fst (Lottery_lottery
                 \<lparr> win = w,
                   fakeWin = fakeWin (rushContinue p),
                   fakeLose = fakeLose (rushContinue p) \<rparr> rnd k)))
   \<and> (jsMultiply (win (rushContinue p)) (rushContinueFn p n) = NegInfinity \<and> w' \<le> rnd k \<longrightarrow>
        fst (Lottery_lotteryRushContinue p n rnd k) =
          Inr (fst (Lottery_lottery
                 \<lparr> win = w',
                   fakeWin = fakeWin (rushContinue p),
                   fakeLose = fakeLose (rushContinue p) \<rparr> rnd k)))"
  by (cases "jsMultiply (win (rushContinue p)) (rushContinueFn p n)")
    (auto simp add: Lottery_lotteryRushContinue_def Lottery_lottery_def Let_def
      split: prod.splits)

theorem C4_witness:
  "fst (Lottery_lotteryRushContinue
          (probability CONFIG_EXAMPLE \<lparr> rushContinueFn := (\<lambda>n. 2) \<rparr>) 1 (\<lambda>k. 0) 0)
     = Inl ProbabilityError
   \<and> jsMultiply (win (rushContinue nearOneProbability)) (rushContinueFn nearOneProbability 1)
     = Finite 1
   \<and> (1 - 1 / 2 ^ 53) * (1 + 1 / 2 ^ 52) > (1 :: real)
   \<and> fst (Lottery_lotteryRushContinue nearOneProbability 1 (\<lambda>k. 0) 0)
     = Inr (fst (Lottery_lottery \<lparr> win = 1, fakeWin = 25 / 100, fakeLose = 1 / 10 \<rparr>
                   (\<lambda>k. 0) 0))
   \<and> fst (Lottery_lotteryRushContinue nearOneProbability 1 (\<lambda>k. 0) 0) = Inr (Win FakeWin)
   \<and> jsMultiply (win (rushContinue negativeOverflowProbability))
        (rushContinueFn negativeOverflowProbability 1) = NegInfinity
   \<and> fst (Lottery_lotteryRushContinue negativeOverflowProbability 1 (\<lambda>k. 0) 0)
     = Inr (Lose FakeLose)"
proof -
  let ?p = "probability CONFIG_EXAMPLE \<lparr> rushContinueFn := (\<lambda>n. 2) \<rparr>"
  have "jsMultiply (win (rushContinue ?p)) (rushContinueFn ?p 1) = jsMultiply (4 / 5) 2"
    by (simp add: CONFIG_EXAMPLE_def)
  then have a: "jsGreater (jsMultiply (win (rushContinue ?p)) (rushContinueFn ?p 1)) 1"
    by (simp only: jsMultiply_overflowGame) simp
  have b: "jsMultiply (win (rushContinue nearOneProbability))
             (rushContinueFn nearOneProbability 1) = Finite 1"
    by (simp only: nearOneProbability_def probability.select_convs
        slotProbability.select_convs jsMultiply_nearOne)
  have c: "jsMultiply (win (rushContinue negativeOverflowProbability))
             (rushContinueFn negativeOverflowProbability 1) = NegInfinity"
    by (simp only: negativeOverflowProbability_def probability.select_convs
        slotProbability.select_convs jsMultiply_negativeOverflow)
  have x: "(1 - 1 / 2 ^ 53) * (1 + 1 / 2 ^ 52) > (1 :: real)"
    by simp
  have s1: "fakeWin (rushContinue nearOneProbability) = 25 / 100"
    "fakeLose (rushContinue nearOneProbability) = 1 / 10"
    by (simp_all only: nearOneProbability_def probability.select_convs
        slotProbability.select_convs)
  have s2: "fakeWin (rushContinue negativeOverflowProbability) = 25 / 100"
    "fakeLose (rushContinue negativeOverflowProbability) = 1 / 10"
    by (simp_all only: negativeOverflowProbability_def probability.select_convs
        slotProbability.select_convs)
  have t: "fst (Lottery_lotteryRushContinue ?p 1 (\<lambda>k. 0) 0) = Inl ProbabilityError"
    using C4_lotteryRushContinue [of ?p 1 "\<lambda>k. 0" 0] a by blast
  have f: "fst (Lottery_lotteryRushContinue nearOneProbability 1 (\<lambda>k. 0) 0)
             = Inr (fst (Lottery_lottery \<lparr> win = 1, fakeWin = 25 / 100, fakeLose = 1 / 10 \<rparr>
                           (\<lambda>k. 0) 0))"
    using C4_lotteryRushContinue [of nearOneProbability 1 "\<lambda>k. 0" 0 1] b
    by (simp only: s1) simp
  have n: "fst (Lottery_lotteryRushContinue negativeOverflowProbability 1 (\<lambda>k. 0) 0)
             = Inr (fst (Lottery_lottery \<lparr> win = 0, fakeWin = 25 / 100, fakeLose = 1 / 10 \<rparr>
                           (\<lambda>k. 0) 0))"
    using C4_lotteryRushContinue [of negativeOverflowProbability 1 "\<lambda>k. 0" 0 _ 0] c
    by (simp only: s2) simp
  show ?thesis
    using t b x f n c by (simp add: Lottery_lottery_def)
qed

text \<open>
  Claim C5: in a Rush state whose rush-mode draw is a Win, if \<open>lotteryRushContinue\<close> throws
  \<open>ProbabilityError\<close> (whether it throws does not depend on the draw index \<open>k\<close>), then
  \<open>causeLottery\<close> returns normally and the game state is the one before the call.
\<close>

theorem C5_probabilityError_is_swallowed:
  assumes "state g = Rush b rb n"
    and "fst (Lottery_lotteryRush (lottery g) rnd (draws g)) = Win w"
    and "fst (Lottery_lotteryRushContinue (lottery g) n rnd k) = Inl ProbabilityError"
  shows "\<exists>g'. Game_causeLottery rnd g = Inr g' \<and> state g' = state g"
proof -
  obtain k1 where l: "Lottery_lotteryRush (lottery g) rnd (draws g) = (Win w, k1)"
    using assms(2) by (cases "Lottery_lotteryRush (lottery g) rnd (draws g)") simp
  obtain s k2 where p: "SlotProducer_produce Game_slotProducer (Win w) rnd k1 = (Inr s, k2)"
    using produce_Game_slotProducer [of "Win w" rnd k1]
    by (cases "SlotProducer_produce Game_slotProducer (Win w) rnd k1") auto
  have "jsGreater (jsMultiply (win (rushContinue (lottery g))) (rushContinueFn (lottery g) n)) 1"
    using assms(3)
    by (simp add: Lottery_lotteryRushContinue_def Let_def
        split: if_splits prod.splits jsNumber.splits)
  then have t: "Lottery_lotteryRushContinue (lottery g) n rnd k2 = (Inl ProbabilityError, k2)"
    by (simp add: Lottery_lotteryRushContinue_def Let_def)
  show ?thesis
    using assms(1) l p t
    by (simp add: Game_causeLottery_def Game_setSlotSpinning_def notify_def Let_def
        Game_causeLottery_try_def Game_causeLottery_catch_def)
qed

theorem C5_witness:
  "state overflowGame = Rush 1000 300 1
   \<and> fst (Lottery_lotteryRush (lottery overflowGame) (\<lambda>k. 0) (draws overflowGame)) = Win FakeWin
   \<and> fst (Lottery_lotteryRushContinue (lottery overflowGame) 1 (\<lambda>k. 0) 5) = Inl ProbabilityError
   \<and> (\<exists>g'. Game_causeLottery (\<lambda>k. 0) overflowGame = Inr g' \<and> state g' = Rush 1000 300 1)"
proof -
  have s: "state overflowGame = Rush 1000 300 1"
    by (simp add: overflowGame_def exampleGame_def)
  have l: "fst (Lottery_lotteryRush (lottery overflowGame) (\<lambda>k. 0) (draws overflowGame))
             = Win FakeWin"
    by (simp add: overflowGame_def eval_defs)
  have c: "fst (Lottery_lotteryRushContinue (lottery overflowGame) 1 (\<lambda>k. 0) 5)
             = Inl ProbabilityError"
    by (simp add: overflowGame_def eval_defs jsMultiply_overflowGame)
  from C5_probabilityError_is_swallowed [OF s l c] s l c show ?thesis
    by simp
qed

text \<open>
  Claim C6: in state \<open>Rush(b, rb, n)\<close>, when the rush-mode draw is a Win and
  \<open>lotteryRushContinue(n)\<close>, drawn after the reel of the first draw has been produced,
  returns without error, \<open>causeLottery\<close> returns with state
  \<open>Rush(b + incrementalBalls, rb + incrementalRush, n + 1)\<close> if the continuation is a Win
  and \<open>Rush(b + incrementalBalls, rb, n)\<close> if it is a Lose.
\<close>

theorem C6_rush_continuation:
  assumes "state g = Rush b rb n"
    and "Lottery_lotteryRush (lottery g) rnd (draws g) = (Win w, k1)"
    and "snd (SlotProducer_produce Game_slotProducer (Win w) rnd k1) = k2"
    and "fst (Lottery_lotteryRushContinue (lottery g) n rnd k2) = Inr continueResult"
  shows "\<exists>g'. Game_causeLottery rnd g = Inr g'
           \<and> state g' =
               (if LotteryResult_isWin continueResult
                then Rush (b + incrementalBalls (config g)) (rb + incrementalRush (config g)) (n + 1)
                else Rush (b + incrementalBalls (config g)) rb n)"
proof -
  obtain s where p: "SlotProducer_produce Game_slotProducer (Win w) rnd k1 = (Inr s, k2)"
    using produce_Game_slotProducer [of "Win w" rnd k1] assms(3)
    by (cases "SlotProducer_produce Game_slotProducer (Win w) rnd k1") auto
  obtain k3 where c: "Lottery_lotteryRushContinue (lottery g) n rnd k2 = (Inr continueResult, k3)"
    using assms(4) by (cases "Lottery_lotteryRushContinue (lottery g) n rnd k2") simp
  obtain s' k4 where p': "SlotProducer_produce Game_slotProducer continueResult rnd k3 = (Inr s', k4)"
    using produce_Game_slotProducer [of continueResult rnd k3]
    by (cases "SlotProducer_produce Game_slotProducer continueResult rnd k3") auto
  show ?thesis
    using assms(1,2) p c p'
    by (simp add: Game_causeLottery_def Game_setSlotSpinning_def notify_def Let_def
        Game_causeLottery_try_def Game_causeLottery_catch_def)
qed

theorem C6_witness:
  "state (exampleGame (Rush 1000 300 1)) = Rush 1000 300 1
   \<and> Lottery_lotteryRush (lottery (exampleGame (Rush 1000 300 1))) (\<lambda>k. 0)
        (draws (exampleGame (Rush 1000 300 1))) = (Win FakeWin, 2)
   \<and> snd (SlotProducer_produce Game_slotProducer (Win FakeWin) (\<lambda>k. 0) 2) = 5
   \<and> fst (Lottery_lotteryRushContinue (lottery (exampleGame (Rush 1000 300 1))) 1 (\<lambda>k. 0) 5)
       = Inr (Win FakeWin)
   \<and> (\<exists>g'. Game_causeLottery (\<lambda>k. 0) (exampleGame (Rush 1000 300 1)) = Inr g'
           \<and> state g' = Rush 1015 600 2)
   \<and> Lottery_lotteryRush (lottery (exampleGame (Rush 1000 300 1))) (loseAfter 5)
        (draws (exampleGame (Rush 1000 300 1))) = (Win FakeWin, 2)
   \<and> snd (SlotProducer_produce Game_slotProducer (Win FakeWin) (loseAfter 5) 2) = 5
   \<and> fst (Lottery_lotteryRushContinue (lottery (exampleGame (Rush 1000 300 1))) 1 (loseAfter 5) 5)
       = Inr (Lose LoseDefault)
   \<and> (\<exists>g'. Game_causeLottery (loseAfter 5) (exampleGame (Rush 1000 300 1)) = Inr g'
           \<and> state g' = Rush 1015 300 1)"
proof -
  let ?g = "exampleGame (Rush 1000 300 1)"
  have s: "state ?g = Rush 1000 300 1"
    by (simp add: exampleGame_def)
  have l: "Lottery_lotteryRush (lottery ?g) (\<lambda>k. 0) (draws ?g) = (Win FakeWin, 2)"
    by (simp add: eval_defs)
  have p: "snd (SlotProducer_produce Game_slotProducer (Win FakeWin) (\<lambda>k. 0) 2) = 5"
    by (simp add: SlotProducer_produceFakeLose_def SlotProducer_produceWin_def Let_def
        split: prod.splits)
  have c: "fst (Lottery_lotteryRushContinue (lottery ?g) 1 (\<lambda>k. 0) 5) = Inr (Win FakeWin)"
    by (simp add: eval_defs jsMultiply_example)
  have l': "Lottery_lotteryRush (lottery ?g) (loseAfter 5) (draws ?g) = (Win FakeWin, 2)"
    by (simp add: eval_defs loseAfter_def)
  have p': "snd (SlotProducer_produce Game_slotProducer (Win FakeWin) (loseAfter 5) 2) = 5"
    by (simp add: SlotProducer_produceFakeLose_def SlotProducer_produceWin_def Let_def
        split: prod.splits)
  have c': "fst (Lottery_lotteryRushContinue (lottery ?g) 1 (loseAfter 5) 5)
              = Inr (Lose LoseDefault)"
    by (simp add: eval_defs loseAfter_def jsMultiply_example)
  from C6_rush_continuation [OF s l p c] C6_rush_continuation [OF s l' p' c'] s l p c l' p' c'
  show ?thesis
    by (simp add: exampleGame_def CONFIG_EXAMPLE_def)
qed

subsection \<open>The spinning flag\<close>

lemma spinning_start: "isSlotSpinning g \<Longrightarrow> isSlotSpinning (gameAfter (Game_start g))"
  by (simp add: Game_start_def notify_def split: sum.splits)

lemma spinning_finish: "isSlotSpinning g \<Longrightarrow> isSlotSpinning (gameAfter (Game_finish g))"
  by (simp add: Game_finish_def notify_def)

lemma spinning_launchBall:
  "isSlotSpinning g \<Longrightarrow> Game_launchBall g = Inl (Error ''Cannot launch ball while slot is spinning'', g)"
  by (simp add: Game_launchBall_def)

lemma spinning_try:
  "isSlotSpinning g \<Longrightarrow> isSlotSpinning (Game_causeLottery_catch (Game_causeLottery_try rnd g n))"
  by (simp add: Game_causeLottery_try_def Game_causeLottery_catch_def notify_def Let_def
      split: prod.splits sum.splits)

lemma spinning_causeLottery: "isSlotSpinning (gameAfter (Game_causeLottery rnd g))"
  by (simp add: Game_causeLottery_def Game_setSlotSpinning_def notify_def Let_def spinning_try
      split: prod.splits sum.splits gameState.splits)

lemma spinning_execute:
  "isSlotSpinning g \<Longrightarrow> isSlotSpinning (gameAfter (GameCommand_execute rnd c g))"
  by (cases c) (simp_all add: spinning_start spinning_finish spinning_launchBall spinning_causeLottery)

lemma spinning_runStepWithCommand:
  assumes "isSlotSpinning g"
  shows "isSlotSpinning (gameAfterStep (Game_runStepWithCommand rnd g c))"
proof -
  let ?g0 = "g \<lparr> beforeState := Some (state g) \<rparr>"
  have x: "isSlotSpinning (gameAfter (GameCommand_execute rnd cc ?g0))" for cc
    using assms by (simp add: spinning_execute)
  have l: "isSlotSpinning g1" if "GameCommand_execute rnd cc ?g0 = Inl (e, g1)" for cc e g1
    using x [of cc] that by simp
  have r: "isSlotSpinning g1" if "GameCommand_execute rnd cc ?g0 = Inr g1" for cc g1
    using x [of cc] that by simp
  show ?thesis
    using assms
    by (auto simp add: Game_runStepWithCommand_def Let_def notify_def
        split: sum.splits option.splits dest: l r)
qed

lemma spinning_runStep:
  "isSlotSpinning g \<Longrightarrow> isSlotSpinning (gameAfterStep (Game_runStep rnd g))"
  by (simp add: Game_runStep_def Let_def spinning_runStepWithCommand)

lemma spinning_runCommands:
  "isSlotSpinning g \<Longrightarrow> isSlotSpinning (runCommands rnd g cs)"
  by (induction cs arbitrary: g) (simp_all add: spinning_runStepWithCommand)

text \<open>
  Claim C9: \<open>Game.causeLottery\<close> leaves the spinning flag set, however it ends; once the
  flag is set, \<open>runStep\<close>, \<open>runStepWithCommand\<close>, \<open>start\<close>, \<open>finish\<close>, \<open>launchBall\<close>,
  \<open>causeLottery\<close> and any sequence of commands leave it set; and while it is set
  \<open>Game.launchBall\<close> throws the blocking error and leaves the game as it was.
\<close>

theorem C9_spinning_never_cleared:
  "isSlotSpinning (gameAfter (Game_causeLottery rnd g))
   \<and> (isSlotSpinning g \<longrightarrow>
        isSlotSpinning (gameAfterStep (Game_runStep rnd g))
      \<and> isSlotSpinning (gameAfterStep (Game_runStepWithCommand rnd g c))
      \<and> isSlotSpinning (gameAfter (Game_start g))
      \<and> isSlotSpinning (gameAfter (Game_finish g))
      \<and> isSlotSpinning (gameAfter (Game_launchBall g))
      \<and> isSlotSpinning (gameAfter (Game_causeLottery rnd g))
      \<and> isSlotSpinning (runCommands rnd g cs)
      \<and> Game_launchBall g = Inl (Error ''Cannot launch ball while slot is spinning'', g))"
  by (simp add: spinning_causeLottery spinning_runStep spinning_runStepWithCommand
      spinning_start spinning_finish spinning_launchBall spinning_runCommands)

theorem C9_witness:
  "isSlotSpinning (gameAfter (Game_causeLottery (\<lambda>k. 0) (exampleGame (Normal 1000))))
   \<and> isSlotSpinning ((exampleGame (Normal 1000)) \<lparr> isSlotSpinning := True \<rparr>)
   \<and> isSlotSpinning
        (runCommands (\<lambda>k. 0) ((exampleGame (Normal 1000)) \<lparr> isSlotSpinning := True \<rparr>)
           [Some (StringCommand ''CauseLottery''), Some (Control (LaunchBallFlow True))])
   \<and> Game_launchBall ((exampleGame (Normal 1000)) \<lparr> isSlotSpinning := True \<rparr>)
       = Inl (Error ''Cannot launch ball while slot is spinning'',
              (exampleGame (Normal 1000)) \<lparr> isSlotSpinning := True \<rparr>)"
  using C9_spinning_never_cleared
          [of "\<lambda>k. 0" "exampleGame (Normal 1000)"]
        C9_spinning_never_cleared
          [of "\<lambda>k. 0" "(exampleGame (Normal 1000)) \<lparr> isSlotSpinning := True \<rparr>"
              "Some (Control LaunchBall)"
              "[Some (StringCommand ''CauseLottery''), Some (Control (LaunchBallFlow True))]"]
  by simp

subsection \<open>The \<open>default\<close> notifications\<close>

lemma defaultTransitions_append:
  "defaultTransitions (xs @ ys) = defaultTransitions xs @ defaultTransitions ys"
  by (induction xs rule: defaultTransitions.induct) simp_all

lemma quiet_refl: "quiet g g"
  by (simp add: quiet_def)

lemma quiet_trans: "quiet g g1 \<Longrightarrow> quiet g1 g2 \<Longrightarrow> quiet g g2"
  by (auto simp: quiet_def defaultTransitions_append)

lemma quiet_start: "quiet g (gameAfter (Game_start g))"
  by (simp add: Game_start_def notify_def quiet_def split: sum.splits)

lemma quiet_finish: "quiet g (gameAfter (Game_finish g))"
  by (simp add: Game_finish_def notify_def quiet_def)

lemma quiet_launchBall: "quiet g (gameAfter (Game_launchBall g))"
  by (simp add: Game_launchBall_def quiet_def split: sum.splits)

lemma quiet_try: "quiet g (Game_causeLottery_catch (Game_causeLottery_try rnd g n))"
  by (simp add: Game_causeLottery_try_def Game_causeLottery_catch_def notify_def Let_def quiet_def
      split: prod.splits sum.splits)

lemma quiet_causeLottery: "quiet g (gameAfter (Game_causeLottery rnd g))"
proof -
  have q: "quiet g g2 \<Longrightarrow> quiet g (Game_causeLottery_catch (Game_causeLottery_try rnd g2 n))" for g2 n
    using quiet_trans [OF _ quiet_try] by blast
  show ?thesis
    by (auto simp add: Game_causeLottery_def Game_setSlotSpinning_def notify_def Let_def
      split: prod.splits sum.splits gameState.splits intro!: q) (simp_all add: quiet_def)
qed

lemma quiet_execute: "quiet g (gameAfter (GameCommand_execute rnd c g))"
proof (cases c)
  case (LaunchBallFlow isLottery)
  show ?thesis
  proof (cases "Game_launchBall g")
    case (Inl t)
    with LaunchBallFlow quiet_launchBall [of g] show ?thesis by simp
  next
    case (Inr g1)
    with quiet_launchBall [of g] have "quiet g g1" by simp
    with LaunchBallFlow Inr quiet_trans [OF _ quiet_causeLottery [of g1 rnd]] show ?thesis
      by simp
  qed
qed (simp_all add: quiet_start quiet_finish quiet_launchBall quiet_causeLottery)

lemma runStepWithCommand_log:
  "\<exists>es. outputLog (gameAfterStep (Game_runStepWithCommand rnd g c)) = outputLog g @ es
       \<and> (\<forall>t \<in> set (defaultTransitions es). before t = Some (state g))"
proof -
  let ?g0 = "g \<lparr> beforeState := Some (state g) \<rparr>"
  have q: "quiet ?g0 (gameAfter (GameCommand_execute rnd cc ?g0))" for cc
    by (rule quiet_execute)
  have e: "\<exists>es. outputLog g1 = outputLog g @ es \<and> defaultTransitions es = []
             \<and> beforeState g1 = Some (state g)"
    if "gameAfter (GameCommand_execute rnd cc ?g0) = g1" for cc g1
    using q [of cc] that by (auto simp: quiet_def)
  have l: "\<exists>es. outputLog g1 = outputLog g @ es \<and> defaultTransitions es = []"
    if "GameCommand_execute rnd cc ?g0 = Inl (x, g1)" for cc x g1
    using e [of cc g1] that by auto
  have r: "\<exists>es. outputLog g1 = outputLog g @ es \<and> defaultTransitions es = []
             \<and> beforeState g1 = Some (state g)"
    if "GameCommand_execute rnd cc ?g0 = Inr g1" for cc g1
    using e [of cc g1] that by auto
  show ?thesis
  proof (cases "Game_runStepWithCommand rnd g c")
    case (Inl t)
    then show ?thesis
      by (cases t)
        (auto simp: Game_runStepWithCommand_def Let_def
          split: if_splits sum.splits option.splits dest!: l)
  next
    case (Inr p)
    then show ?thesis
      by (cases p)
        (auto simp: Game_runStepWithCommand_def Let_def notify_def defaultTransitions_append
          split: if_splits sum.splits option.splits dest!: r)
  qed
qed

lemma neverNullBefore_step:
  "neverNullBefore g \<Longrightarrow> neverNullBefore (gameAfterStep (Game_runStepWithCommand rnd g c))"
  using runStepWithCommand_log [of rnd g c]
  by (auto simp: neverNullBefore_def defaultTransitions_append)

lemma neverNullBefore_runCommands:
  "neverNullBefore g \<Longrightarrow> neverNullBefore (runCommands rnd g cs)"
  by (induction cs arbitrary: g) (simp_all add: neverNullBefore_step)

lemma neverNullBefore_new: "Game_new cfg inp = Inr g \<Longrightarrow> neverNullBefore g"
  by (auto simp: Game_new_def neverNullBefore_def split: sum.splits)

text \<open>
  Claim C10: \<open>runStepWithCommand\<close> only appends to the output log, and every \<open>default\<close>
  notification it appends carries a \<open>before\<close> that is not null and equals the game state
  at the start of the step; hence, for every sequence of commands given to a new game, no
  \<open>default\<close> notification has \<open>before = null\<close>.
\<close>

theorem C10_default_before_not_null:
  "outputLog (gameAfterStep (Game_runStepWithCommand rnd g c))
     = outputLog g @ emitted g (gameAfterStep (Game_runStepWithCommand rnd g c))
   \<and> (\<forall>t \<in> set (defaultTransitions (emitted g (gameAfterStep (Game_runStepWithCommand rnd g c)))).
         before t = Some (state g))
   \<and> (Game_new cfg inp = Inr g0 \<longrightarrow>
        (\<forall>t \<in> set (defaultTransitions (outputLog (runCommands rnd g0 cs))). before t \<noteq> None))"
proof -
  obtain es where es:
    "outputLog (gameAfterStep (Game_runStepWithCommand rnd g c)) = outputLog g @ es"
    "\<forall>t \<in> set (defaultTransitions es). before t = Some (state g)"
    using runStepWithCommand_log [of rnd g c] by blast
  then have "emitted g (gameAfterStep (Game_runStepWithCommand rnd g c)) = es"
    by (simp add: emitted_def)
  moreover have "Game_new cfg inp = Inr g0 \<longrightarrow> neverNullBefore (runCommands rnd g0 cs)"
    by (simp add: neverNullBefore_new neverNullBefore_runCommands)
  ultimately show ?thesis
    using es by (simp add: neverNullBefore_def)
qed

theorem C10_witness:
  "Game_new CONFIG_EXAMPLE (\<lambda>i. None) = Inr (exampleGame Uninitialized)
   \<and> defaultTransitions (outputLog (runCommands (\<lambda>k. 0) (exampleGame Uninitialized)
        [Some (StringCommand ''StartGame''), Some (Control LaunchBall)]))
      = [\<lparr> before = Some Uninitialized, after = Normal 1000 \<rparr>,
         \<lparr> before = Some (Normal 1000), after = Normal 999 \<rparr>]
   \<and> None \<notin> before ` set (defaultTransitions (outputLog (runCommands (\<lambda>k. 0)
        (exampleGame Uninitialized)
        [Some (StringCommand ''StartGame''), Some (Control LaunchBall)])))"
proof -
  have n: "Game_new CONFIG_EXAMPLE (\<lambda>i. None) = Inr (exampleGame Uninitialized)"
    by (simp add: Game_new_def exampleGame_def CONFIG_EXAMPLE_def Config_validate_def
        BallsConfig_validate_def Probability_validate_def SlotProbability_validate_def
        throwIfErrors_def)
  have r: "defaultTransitions (outputLog (runCommands (\<lambda>k. 0) (exampleGame Uninitialized)
        [Some (StringCommand ''StartGame''), Some (Control LaunchBall)]))
      = [\<lparr> before = Some Uninitialized, after = Normal 1000 \<rparr>,
         \<lparr> before = Some (Normal 1000), after = Normal 999 \<rparr>]"
    by (simp add: Game_runStepWithCommand_def Game_start_def Game_launchBall_def notify_def
        exampleGame_def CONFIG_EXAMPLE_def Let_def)
  from C10_default_before_not_null
         [of "\<lambda>k. 0" "exampleGame Uninitialized" "Some (StringCommand ''StartGame'')"
             CONFIG_EXAMPLE "\<lambda>i. None" "exampleGame Uninitialized"
             "[Some (StringCommand ''StartGame''), Some (Control LaunchBall)]"] n r
  show ?thesis by auto
qed

end
